theory Spec2Isabelle
  imports Complex_Main
begin

section \<open>Python values, exceptions and the built-in operations the pipeline uses\<close>

text \<open>
  The payloads the pipeline handles are what \<^verbatim>\<open>response.json()\<close> returns: \<^verbatim>\<open>None\<close>,
  booleans, integers, strings, lists and dicts with string keys. A dict is an association
  list in insertion order (the decoder never yields a repeated key); one \<open>char\<close> stands
  for one character of a Python \<^verbatim>\<open>str\<close>. JSON numbers with a fractional part are
  left out of the value type.
\<close>

datatype pyval =
    PNone
  | PBool bool
  | PInt int
  | PStr string
  | PList "pyval list"
  | PDict "(string \<times> pyval) list"

datatype py_error =
    AttributeError
  | KeyError
  | IndexError
  | TypeError
  | ZeroDivisionError
  | ValueError string
  | RequestException
  | Exception string

text \<open>Truth value of an object, as \<^verbatim>\<open>if x\<close> and \<^verbatim>\<open>not x\<close> test it.\<close>

fun truthy :: "pyval \<Rightarrow> bool" where
  "truthy PNone = False"
| "truthy (PBool b) = b"
| "truthy (PInt n) = (n \<noteq> 0)"
| "truthy (PStr s) = (s \<noteq> [])"
| "truthy (PList xs) = (xs \<noteq> [])"
| "truthy (PDict kvs) = (kvs \<noteq> [])"

text \<open>\<^verbatim>\<open>x.get(k, d)\<close>: only a dict has the method.\<close>

fun py_get :: "pyval \<Rightarrow> string \<Rightarrow> pyval \<Rightarrow> py_error + pyval" where
  "py_get (PDict kvs) k d = Inr (case map_of kvs k of None \<Rightarrow> d | Some v \<Rightarrow> v)"
| "py_get PNone k d = Inl AttributeError"
| "py_get (PBool b) k d = Inl AttributeError"
| "py_get (PInt n) k d = Inl AttributeError"
| "py_get (PStr s) k d = Inl AttributeError"
| "py_get (PList xs) k d = Inl AttributeError"

text \<open>\<^verbatim>\<open>x[k]\<close> with a string key \<open>k\<close>.\<close>

fun py_getitem :: "pyval \<Rightarrow> string \<Rightarrow> py_error + pyval" where
  "py_getitem (PDict kvs) k = (case map_of kvs k of None \<Rightarrow> Inl KeyError | Some v \<Rightarrow> Inr v)"
| "py_getitem PNone k = Inl TypeError"
| "py_getitem (PBool b) k = Inl TypeError"
| "py_getitem (PInt n) k = Inl TypeError"
| "py_getitem (PStr s) k = Inl TypeError"
| "py_getitem (PList xs) k = Inl TypeError"

text \<open>\<^verbatim>\<open>x[0]\<close>; a dict of the decoder has string keys only, so key \<open>0\<close> is missing.\<close>

fun py_first :: "pyval \<Rightarrow> py_error + pyval" where
  "py_first (PList []) = Inl IndexError"
| "py_first (PList (x # xs)) = Inr x"
| "py_first (PStr []) = Inl IndexError"
| "py_first (PStr (c # cs)) = Inr (PStr [c])"
| "py_first (PDict kvs) = Inl KeyError"
| "py_first PNone = Inl TypeError"
| "py_first (PBool b) = Inl TypeError"
| "py_first (PInt n) = Inl TypeError"

text \<open>
  \<^verbatim>\<open>x[:10]\<close>. Slicing a dict raises (\<^verbatim>\<open>TypeError\<close> up to Python 3.11,
  \<^verbatim>\<open>KeyError\<close> from 3.12 on); the callers catch either, so one constructor stands for
  both.
\<close>

fun py_slice10 :: "pyval \<Rightarrow> py_error + pyval" where
  "py_slice10 (PStr s) = Inr (PStr (take 10 s))"
| "py_slice10 (PList xs) = Inr (PList (take 10 xs))"
| "py_slice10 (PDict kvs) = Inl TypeError"
| "py_slice10 PNone = Inl TypeError"
| "py_slice10 (PBool b) = Inl TypeError"
| "py_slice10 (PInt n) = Inl TypeError"

text \<open>\<^verbatim>\<open>len(x)\<close>.\<close>

fun py_len :: "pyval \<Rightarrow> py_error + nat" where
  "py_len (PStr s) = Inr (length s)"
| "py_len (PList xs) = Inr (length xs)"
| "py_len (PDict kvs) = Inr (length kvs)"
| "py_len PNone = Inl TypeError"
| "py_len (PBool b) = Inl TypeError"
| "py_len (PInt n) = Inl TypeError"

text \<open>The elements \<^verbatim>\<open>for item in x\<close> visits: a string yields its characters, a dict its keys.\<close>

fun py_iter :: "pyval \<Rightarrow> py_error + pyval list" where
  "py_iter (PList xs) = Inr xs"
| "py_iter (PStr s) = Inr (map (\<lambda>c. PStr [c]) s)"
| "py_iter (PDict kvs) = Inr (map (\<lambda>kv. PStr (fst kv)) kvs)"
| "py_iter PNone = Inl TypeError"
| "py_iter (PBool b) = Inl TypeError"
| "py_iter (PInt n) = Inl TypeError"

text \<open>
  Hashing, as \<^verbatim>\<open>set(...)\<close> and the pandas hash tables do it: lists and dicts are
  unhashable, and \<^verbatim>\<open>True == 1\<close>, \<^verbatim>\<open>False == 0\<close> with equal hashes, so a boolean and
  the integer it equals are one key.
\<close>

fun hashable :: "pyval \<Rightarrow> bool" where
  "hashable (PList xs) = False"
| "hashable (PDict kvs) = False"
| "hashable PNone = True"
| "hashable (PBool b) = True"
| "hashable (PInt n) = True"
| "hashable (PStr s) = True"

fun hash_key :: "pyval \<Rightarrow> pyval" where
  "hash_key (PBool b) = PInt (if b then 1 else 0)"
| "hash_key PNone = PNone"
| "hash_key (PInt n) = PInt n"
| "hash_key (PStr s) = PStr s"
| "hash_key (PList xs) = PList xs"
| "hash_key (PDict kvs) = PDict kvs"

text \<open>A number as \<^verbatim>\<open>sum\<close>, \<^verbatim>\<open>//\<close> and \<^verbatim>\<open>%\<close> read it.\<close>

fun py_number :: "pyval \<Rightarrow> py_error + int" where
  "py_number (PInt n) = Inr n"
| "py_number (PBool b) = Inr (if b then 1 else 0)"
| "py_number PNone = Inl TypeError"
| "py_number (PStr s) = Inl TypeError"
| "py_number (PList xs) = Inl TypeError"
| "py_number (PDict kvs) = Inl TypeError"

text \<open>\<^verbatim>\<open>sum(xs)\<close>, starting from the integer 0.\<close>

fun py_sum :: "pyval list \<Rightarrow> py_error + int" where
  "py_sum [] = Inr 0"
| "py_sum (x # xs) =
     (case py_number x of
        Inl e \<Rightarrow> Inl e
      | Inr n \<Rightarrow> (case py_sum xs of Inl e \<Rightarrow> Inl e | Inr s \<Rightarrow> Inr (n + s)))"

text \<open>
  True division \<^verbatim>\<open>a / b\<close> of an integer by a length, as an exact quotient: the rounding
  to a float, and the \<^verbatim>\<open>OverflowError\<close> of an integer too large for one, are not
  modelled.
\<close>

definition py_truediv :: "int \<Rightarrow> nat \<Rightarrow> py_error + rat" where
  "py_truediv a b = (if b = 0 then Inl ZeroDivisionError else Inr (of_int a / of_nat b))"

text \<open>\<^verbatim>\<open>len(set(xs))\<close>.\<close>

definition py_len_set :: "pyval list \<Rightarrow> py_error + nat" where
  "py_len_set xs =
     (if list_all hashable xs then Inr (length (remdups (map hash_key xs))) else Inl TypeError)"

text \<open>
  An optional string (\<^verbatim>\<open>Optional[str]\<close>) is falsy when it is \<^verbatim>\<open>None\<close> and when it is
  empty.
\<close>

fun str_truthy :: "string option \<Rightarrow> bool" where
  "str_truthy None = False"
| "str_truthy (Some s) = (s \<noteq> [])"

text \<open>
  \<^verbatim>\<open>Variable.get(key, default_var=d)\<close> over the Airflow variable store and
  \<^verbatim>\<open>os.getenv(key)\<close> over the process environment.
\<close>

definition variable_get :: "(string \<rightharpoonup> string) \<Rightarrow> string \<Rightarrow> string option \<Rightarrow> string option" where
  "variable_get store key default_var = (case store key of Some v \<Rightarrow> Some v | None \<Rightarrow> default_var)"

definition getenv :: "(string \<rightharpoonup> string) \<Rightarrow> string \<Rightarrow> string option" where
  "getenv env key = env key"

text \<open>Sequencing of computations that may raise: the first exception wins.\<close>

fun py_then :: "py_error + 'a \<Rightarrow> ('a \<Rightarrow> py_error + 'b) \<Rightarrow> py_error + 'b" where
  "py_then (Inl e) f = Inl e"
| "py_then (Inr x) f = f x"

section \<open>Credential resolution\<close>

record credentials =
  client_id :: string
  client_secret :: string

text \<open>\<^verbatim>\<open>spotify_etl.get_spotify_credentials\<close>.\<close>

definition get_spotify_credentials ::
  "(string \<rightharpoonup> string) \<Rightarrow> (string \<rightharpoonup> string) \<Rightarrow> py_error + credentials" where
  "get_spotify_credentials store env =
     (let cid = variable_get store ''SPOTIFY_CLIENT_ID'' None;
          csecret = variable_get store ''SPOTIFY_CLIENT_SECRET'' None;
          cid = (if \<not> str_truthy cid then getenv env ''SPOTIFY_CLIENT_ID'' else cid);
          csecret = (if \<not> str_truthy csecret then getenv env ''SPOTIFY_CLIENT_SECRET'' else csecret)
      in if \<not> str_truthy cid \<or> \<not> str_truthy csecret
         then Inl (ValueError
           ''Spotify credentials not found. Please set SPOTIFY_CLIENT_ID and SPOTIFY_CLIENT_SECRET'')
         else Inr \<lparr>client_id = the cid, client_secret = the csecret\<rparr>)"

record user_credentials =
  user_client_id :: string
  user_client_secret :: string
  redirect_uri :: string

text \<open>\<^verbatim>\<open>new.get_spotify_user_credentials\<close>.\<close>

definition get_spotify_user_credentials ::
  "(string \<rightharpoonup> string) \<Rightarrow> (string \<rightharpoonup> string) \<Rightarrow> py_error + user_credentials" where
  "get_spotify_user_credentials store env =
     (let cid = variable_get store ''SPOTIFY_CLIENT_ID'' None;
          csecret = variable_get store ''SPOTIFY_CLIENT_SECRET'' None;
          ruri = variable_get store ''SPOTIFY_REDIRECT_URI'' (Some ''http://localhost:8080/callback'');
          cid = (if \<not> str_truthy cid then getenv env ''SPOTIFY_CLIENT_ID'' else cid);
          csecret = (if \<not> str_truthy csecret then getenv env ''SPOTIFY_CLIENT_SECRET'' else csecret);
          ruri = (if \<not> str_truthy ruri
                  then (case getenv env ''SPOTIFY_REDIRECT_URI'' of
                          None \<Rightarrow> Some ''http://localhost:8080/callback''
                        | Some v \<Rightarrow> Some v)
                  else ruri)
      in if \<not> str_truthy cid \<or> \<not> str_truthy csecret
         then Inl (ValueError
           (''Spotify credentials not found. Please set SPOTIFY_CLIENT_ID and SPOTIFY_CLIENT_SECRET. ''
            @ ''Get your credentials from: https://developer.spotify.com/dashboard/applications''))
         else Inr \<lparr>user_client_id = the cid, user_client_secret = the csecret,
                   redirect_uri = the ruri\<rparr>)"

text \<open>\<^verbatim>\<open>spotify_etl2.get_spotify_user_token\<close>.\<close>

definition get_spotify_user_token ::
  "(string \<rightharpoonup> string) \<Rightarrow> (string \<rightharpoonup> string) \<Rightarrow> py_error + string" where
  "get_spotify_user_token store env =
     (let token = variable_get store ''SPOTIFY_USER_TOKEN'' None;
          token = (if \<not> str_truthy token then getenv env ''SPOTIFY_USER_TOKEN'' else token)
      in if \<not> str_truthy token
         then Inl (ValueError
           (''Spotify user token not found. Please set SPOTIFY_USER_TOKEN. ''
            @ ''Get your token from: https://developer.spotify.com/console/get-recently-played/''))
         else Inr (the token))"

section \<open>The recently-played pipeline of \<^verbatim>\<open>spotify_etl2\<close>\<close>

subsection \<open>Retrieval\<close>

text \<open>
  The query \<^verbatim>\<open>requests.get\<close> is called with. The HTTP exchange itself
  (\<^verbatim>\<open>requests.get\<close>, \<^verbatim>\<open>raise_for_status\<close>, \<^verbatim>\<open>response.json()\<close>) is a parameter of the
  model: a function from the query to the decoded body or to the exception raised.
\<close>

record recent_request =
  req_token :: string
  req_after :: int
  req_limit :: int

definition recent_params :: "int \<Rightarrow> string \<Rightarrow> int \<Rightarrow> recent_request" where
  "recent_params yesterday_unix token limit =
     \<lparr>req_token = token, req_after = yesterday_unix * 1000, req_limit = min limit 50\<rparr>"

text \<open>
  \<^verbatim>\<open>spotify_etl2.get_recently_played_tracks\<close>; \<open>yesterday_unix\<close> is
  \<^verbatim>\<open>int(yesterday.timestamp())\<close>. Every exception, also one raised while the log line
  evaluates \<^verbatim>\<open>len(data.get('items', []))\<close>, ends in \<^verbatim>\<open>return None\<close>.
\<close>

definition get_recently_played_tracks_etl2 ::
  "(recent_request \<Rightarrow> py_error + pyval) \<Rightarrow> int \<Rightarrow> string \<Rightarrow> int \<Rightarrow> pyval" where
  "get_recently_played_tracks_etl2 http_get yesterday_unix token limit =
     (case http_get (recent_params yesterday_unix token limit) of
        Inl e \<Rightarrow> PNone
      | Inr data \<Rightarrow>
          (case py_then (py_get data ''items'' (PList [])) py_len of
             Inl e \<Rightarrow> PNone
           | Inr n \<Rightarrow> data))"

subsection \<open>Normalization\<close>

text \<open>The eight parallel lists of \<^verbatim>\<open>process_tracks_data\<close>, later the columns of the DataFrame.\<close>

record columns =
  song_names :: "pyval list"
  artist_names :: "pyval list"
  played_at_list :: "pyval list"
  timestamps :: "pyval list"
  track_ids :: "pyval list"
  album_names :: "pyval list"
  durations :: "pyval list"
  popularities :: "pyval list"

definition no_columns :: columns where
  "no_columns = \<lparr>song_names = [], artist_names = [], played_at_list = [], timestamps = [],
     track_ids = [], album_names = [], durations = [], popularities = []\<rparr>"

text \<open>
  The body of the loop for one item. The statements run in the source's order, each
  appending to its list; the first exception ends the item (\<^verbatim>\<open>except ... continue\<close>) and
  leaves the appends made so far in place.
\<close>

definition process_item :: "pyval \<Rightarrow> columns \<Rightarrow> columns" where
  "process_item item c0 =
     (case py_get item ''track'' (PDict []) of Inl e \<Rightarrow> c0 | Inr track \<Rightarrow>
      (case py_get track ''name'' (PStr ''Unknown'') of Inl e \<Rightarrow> c0 | Inr name \<Rightarrow>
       (let c1 = c0\<lparr>song_names := song_names c0 @ [name]\<rparr> in
        (case py_get track ''artists'' (PList []) of Inl e \<Rightarrow> c1 | Inr artists \<Rightarrow>
         (case (if truthy artists
                then py_then (py_first artists) (\<lambda>a. py_get a ''name'' (PStr ''Unknown''))
                else Inr (PStr ''Unknown'')) of Inl e \<Rightarrow> c1 | Inr artist_name \<Rightarrow>
          (let c2 = c1\<lparr>artist_names := artist_names c1 @ [artist_name]\<rparr> in
           (case py_get item ''played_at'' (PStr []) of Inl e \<Rightarrow> c2 | Inr played_at \<Rightarrow>
            (let c3 = c2\<lparr>played_at_list := played_at_list c2 @ [played_at]\<rparr> in
             (case (if truthy played_at then py_slice10 played_at else Inr (PStr []))
              of Inl e \<Rightarrow> c3 | Inr timestamp \<Rightarrow>
              (let c4 = c3\<lparr>timestamps := timestamps c3 @ [timestamp]\<rparr> in
               (case py_get track ''id'' (PStr []) of Inl e \<Rightarrow> c4 | Inr tid \<Rightarrow>
                (let c5 = c4\<lparr>track_ids := track_ids c4 @ [tid]\<rparr> in
                 (case py_then (py_get track ''album'' (PDict []))
                         (\<lambda>album. py_get album ''name'' (PStr ''Unknown''))
                  of Inl e \<Rightarrow> c5 | Inr album_name \<Rightarrow>
                  (let c6 = c5\<lparr>album_names := album_names c5 @ [album_name]\<rparr> in
                   (case py_get track ''duration_ms'' (PInt 0) of Inl e \<Rightarrow> c6 | Inr d \<Rightarrow>
                    (let c7 = c6\<lparr>durations := durations c6 @ [d]\<rparr> in
                     (case py_get track ''popularity'' (PInt 0) of Inl e \<Rightarrow> c7 | Inr p \<Rightarrow>
                      c7\<lparr>popularities := popularities c7 @ [p]\<rparr>)))))))))))))))))"

fun process_items :: "pyval list \<Rightarrow> columns \<Rightarrow> columns" where
  "process_items [] c = c"
| "process_items (item # items) c = process_items items (process_item item c)"

text \<open>
  \<^verbatim>\<open>pd.DataFrame(song_dict)\<close>: a dict of lists becomes a frame when the lists have one
  length and raises \<^verbatim>\<open>ValueError\<close> otherwise. A frame is the record of its columns.
\<close>

type_synonym dataframe = columns

definition same_length :: "columns \<Rightarrow> bool" where
  "same_length c \<longleftrightarrow>
     length (artist_names c) = length (song_names c) \<and>
     length (played_at_list c) = length (song_names c) \<and>
     length (timestamps c) = length (song_names c) \<and>
     length (track_ids c) = length (song_names c) \<and>
     length (album_names c) = length (song_names c) \<and>
     length (durations c) = length (song_names c) \<and>
     length (popularities c) = length (song_names c)"

definition DataFrame :: "columns \<Rightarrow> py_error + dataframe" where
  "DataFrame c =
     (if same_length c then Inr c else Inl (ValueError ''All arrays must be of the same length''))"

text \<open>\<^verbatim>\<open>len(df)\<close> and \<^verbatim>\<open>df.empty\<close> (the frame always has its eight columns).\<close>

definition df_len :: "dataframe \<Rightarrow> nat" where
  "df_len df = length (song_names df)"

definition df_empty :: "dataframe \<Rightarrow> bool" where
  "df_empty df \<longleftrightarrow> df_len df = 0"

text \<open>\<^verbatim>\<open>spotify_etl2.process_tracks_data\<close>.\<close>

definition process_tracks_data :: "pyval \<Rightarrow> py_error + dataframe" where
  "process_tracks_data data =
     (case py_then (py_get data ''items'' (PList [])) py_iter of
        Inl e \<Rightarrow> Inl e
      | Inr items \<Rightarrow> DataFrame (process_items items no_columns))"

subsection \<open>Validation\<close>

text \<open>
  The dtype pandas gives a column decides how its cells are compared. A column of
  integers that also holds \<^verbatim>\<open>None\<close> is stored as float64 (\<^verbatim>\<open>None\<close> becomes NaN), where
  integers beyond 2^53 lose their last digits and may collide. Every other column of the
  value type keeps its cells as they are (dtype object, bool, int64 or uint64).
\<close>

fun is_int :: "pyval \<Rightarrow> bool" where
  "is_int (PInt n) = True"
| "is_int v = False"

fun int_or_null :: "pyval \<Rightarrow> bool" where
  "int_or_null (PInt n) = True"
| "int_or_null PNone = True"
| "int_or_null v = False"

definition float64_column :: "pyval list \<Rightarrow> bool" where
  "float64_column xs \<longleftrightarrow> list_all int_or_null xs \<and> list_ex is_int xs \<and> PNone \<in> set xs"

text \<open>
  \<^verbatim>\<open>Series.is_unique\<close>: hashing an unhashable cell raises \<^verbatim>\<open>TypeError\<close>; in a column
  that keeps its cells no two of them may have the same key (two \<^verbatim>\<open>None\<close> cells count
  as equal). What pandas answers for a column of integers with nulls is the parameter
  \<open>float64_unique\<close>.
\<close>

definition is_unique :: "(pyval list \<Rightarrow> py_error + bool) \<Rightarrow> pyval list \<Rightarrow> py_error + bool" where
  "is_unique float64_unique xs =
     (if \<not> list_all hashable xs then Inl TypeError
      else if float64_column xs then float64_unique xs
      else Inr (distinct (map hash_key xs)))"

text \<open>\<^verbatim>\<open>df.isnull().values.any()\<close>.\<close>

definition isnull_any :: "dataframe \<Rightarrow> bool" where
  "isnull_any df \<longleftrightarrow>
     PNone \<in> set (song_names df @ artist_names df @ played_at_list df @ timestamps df @
                  track_ids df @ album_names df @ durations df @ popularities df)"

text \<open>What the validator writes to the log.\<close>

datatype log_entry =
    NoSongsDownloaded
  | NullValuesFound
  | OldTracksFound nat
  | TimestampValidationError py_error

text \<open>
  \<^verbatim>\<open>spotify_etl2.check_if_valid_data\<close>. The frame always has its \<^verbatim>\<open>played_at\<close> and
  \<^verbatim>\<open>timestamp\<close> columns. The count of rows dated before seven days ago
  (\<^verbatim>\<open>pd.to_datetime\<close>, the comparison with \<^verbatim>\<open>datetime.now()\<close>, \<^verbatim>\<open>.sum()\<close>) is the
  parameter \<open>old_tracks\<close>, which may raise; the source catches whatever it raises.
  \<open>float64_unique\<close> is the parameter of \<open>is_unique\<close>. The result pairs the returned
  boolean with the log entries.
\<close>

definition check_if_valid_data ::
  "(pyval list \<Rightarrow> py_error + bool) \<Rightarrow> (pyval list \<Rightarrow> py_error + nat) \<Rightarrow> dataframe
     \<Rightarrow> py_error + (bool \<times> log_entry list)" where
  "check_if_valid_data float64_unique old_tracks df =
     (if df_empty df then Inr (False, [NoSongsDownloaded])
      else
        (case is_unique float64_unique (played_at_list df) of
           Inl e \<Rightarrow> Inl e
         | Inr unique \<Rightarrow>
             if \<not> unique
             then Inl (Exception
               ''Primary Key check is violated - duplicate played_at timestamps found'')
             else
               (let nulls = (if isnull_any df then [NullValuesFound] else []);
                    stale = (case old_tracks (timestamps df) of
                               Inl e \<Rightarrow> [TimestampValidationError e]
                             | Inr n \<Rightarrow> if 0 < n then [OldTracksFound n] else [])
                in Inr (True, nulls @ stale))))"

subsection \<open>Persistence and the run\<close>

definition DATABASE_LOCATION :: string where
  "DATABASE_LOCATION = ''sqlite:///my_played_tracks.sqlite''"

text \<open>
  \<^verbatim>\<open>spotify_etl2.save_to_database\<close>: \<open>to_sql\<close> stands for the connection and the append
  to the table \<^verbatim>\<open>recently_played\<close>, and tells whether they went through without an
  exception.
\<close>

definition save_to_database :: "(string \<Rightarrow> dataframe \<Rightarrow> bool) \<Rightarrow> dataframe \<Rightarrow> string \<Rightarrow> bool" where
  "save_to_database to_sql df database_location = to_sql database_location df"

text \<open>
  Everything a run of \<^verbatim>\<open>spotify_etl2\<close> reads from outside: the variable store, the
  environment, Python's \<^verbatim>\<open>int\<close> on a string (\<open>None\<close> for \<^verbatim>\<open>ValueError\<close>), the clock,
  the HTTP exchange, the database, the keyword arguments of the call, the two parameters
  of the validator, and the pandas reductions used only for the summary.
\<close>

record etl2_world =
  etl2_variables :: "string \<rightharpoonup> string"
  etl2_environ :: "string \<rightharpoonup> string"
  etl2_int :: "string \<Rightarrow> int option"
  etl2_yesterday_unix :: int
  etl2_today :: string
  etl2_http_get :: "recent_request \<Rightarrow> py_error + pyval"
  etl2_float64_unique :: "pyval list \<Rightarrow> py_error + bool"
  etl2_old_tracks :: "pyval list \<Rightarrow> py_error + nat"
  etl2_to_sql :: "string \<Rightarrow> dataframe \<Rightarrow> bool"
  etl2_nunique :: "pyval list \<Rightarrow> py_error + nat"
  etl2_min_max :: "pyval list \<Rightarrow> py_error + string"
  etl2_context :: "(string \<times> pyval) list"

text \<open>The dict a run returns; the keys absent from the "no data" dict are \<open>None\<close>.\<close>

record etl2_summary =
  etl2_tracks_processed :: nat
  etl2_unique_artists :: "nat option"
  etl2_date_range :: "string option"
  etl2_database_location :: "string option"
  etl2_execution_date :: "pyval option"
  etl2_status :: string

text \<open>\<^verbatim>\<open>context.get('ds') if context else str(datetime.now().date())\<close>.\<close>

definition execution_date :: "(string \<times> pyval) list \<Rightarrow> string \<Rightarrow> pyval" where
  "execution_date context today =
     (if context \<noteq> [] then (case map_of context ''ds'' of None \<Rightarrow> PNone | Some v \<Rightarrow> v)
      else PStr today)"

text \<open>
  \<^verbatim>\<open>spotify_etl2.run_spotify_recently_played_etl\<close>. The result pairs what the call
  returns or raises with the frames handed to \<^verbatim>\<open>save_to_database\<close>, in order.
\<close>

definition run_spotify_recently_played_etl ::
  "etl2_world \<Rightarrow> (py_error + etl2_summary) \<times> dataframe list" where
  "run_spotify_recently_played_etl w =
     (case etl2_int w (the (variable_get (etl2_variables w) ''SPOTIFY_RECENT_LIMIT'' (Some ''50''))) of
        None \<Rightarrow> (Inl (ValueError ''invalid literal for int()''), [])
      | Some limit \<Rightarrow>
     (case get_spotify_user_token (etl2_variables w) (etl2_environ w) of
        Inl e \<Rightarrow> (Inl e, [])
      | Inr token \<Rightarrow>
     (let data = get_recently_played_tracks_etl2 (etl2_http_get w) (etl2_yesterday_unix w) token limit in
      if \<not> truthy data then (Inl (Exception ''Failed to retrieve recently played tracks''), [])
      else
     (case process_tracks_data data of
        Inl e \<Rightarrow> (Inl e, [])
      | Inr df \<Rightarrow>
      if df_empty df
      then (Inr \<lparr>etl2_tracks_processed = 0, etl2_unique_artists = None, etl2_date_range = None,
                  etl2_database_location = None, etl2_execution_date = None,
                  etl2_status = ''no_data''\<rparr>, [])
      else
     (case check_if_valid_data (etl2_float64_unique w) (etl2_old_tracks w) df of
        Inl e \<Rightarrow> (Inl e, [])
      | Inr valid \<Rightarrow>
     (let success = save_to_database (etl2_to_sql w) df DATABASE_LOCATION in
      if \<not> success then (Inl (Exception ''Failed to save data to database''), [df])
      else
     (case etl2_nunique w (artist_names df) of
        Inl e \<Rightarrow> (Inl e, [df])
      | Inr unique_artists \<Rightarrow>
     (case etl2_min_max w (timestamps df) of
        Inl e \<Rightarrow> (Inl e, [df])
      | Inr date_range \<Rightarrow>
        (Inr \<lparr>etl2_tracks_processed = df_len df, etl2_unique_artists = Some unique_artists,
               etl2_date_range = Some date_range,
               etl2_database_location = Some DATABASE_LOCATION,
               etl2_execution_date = Some (execution_date (etl2_context w) (etl2_today w)),
               etl2_status = ''success''\<rparr>, [df])))))))))"

section \<open>The recently-played analysis of \<^verbatim>\<open>new\<close>\<close>

subsection \<open>Retrieval and normalization\<close>

text \<open>The dict \<^verbatim>\<open>track_info\<close> built for one item.\<close>

record track_info =
  rank :: nat
  track_name :: pyval
  artist_name :: pyval
  album_name :: pyval
  spotify_url :: pyval
  preview_url :: pyval
  duration_ms :: pyval
  popularity :: pyval
  explicit :: pyval
  played_at :: pyval
  track_id :: pyval
  artist_id :: pyval
  album_id :: pyval

text \<open>\<^verbatim>\<open>track['artists'][0][k] if track.get('artists') else d\<close>.\<close>

definition first_artist :: "pyval \<Rightarrow> string \<Rightarrow> pyval \<Rightarrow> py_error + pyval" where
  "first_artist track k d =
     py_then (py_get track ''artists'' PNone) (\<lambda>artists.
       if truthy artists
       then py_then (py_getitem track ''artists'') (\<lambda>a.
            py_then (py_first a) (\<lambda>a0. py_getitem a0 k))
       else Inr d)"

text \<open>\<^verbatim>\<open>track.get(k1, {}).get(k2, d)\<close>.\<close>

definition nested_get :: "pyval \<Rightarrow> string \<Rightarrow> string \<Rightarrow> pyval \<Rightarrow> py_error + pyval" where
  "nested_get track k1 k2 d = py_then (py_get track k1 (PDict [])) (\<lambda>inner. py_get inner k2 d)"

text \<open>
  The body of the \<^verbatim>\<open>try\<close> for the item at position \<open>idx\<close>: the record, or the
  exception that makes the loop skip the item.
\<close>

definition make_track_info :: "nat \<Rightarrow> pyval \<Rightarrow> py_error + track_info" where
  "make_track_info idx item =
     py_then (py_getitem item ''track'') (\<lambda>track.
     py_then (py_get item ''played_at'' (PStr [])) (\<lambda>played.
     py_then (py_get track ''name'' (PStr ''Unknown'')) (\<lambda>v_name.
     py_then (first_artist track ''name'' (PStr ''Unknown'')) (\<lambda>v_artist.
     py_then (nested_get track ''album'' ''name'' (PStr ''Unknown'')) (\<lambda>v_album.
     py_then (nested_get track ''external_urls'' ''spotify'' (PStr [])) (\<lambda>v_url.
     py_then (py_get track ''preview_url'' (PStr [])) (\<lambda>v_preview.
     py_then (py_get track ''duration_ms'' (PInt 0)) (\<lambda>v_duration.
     py_then (py_get track ''popularity'' (PInt 0)) (\<lambda>v_popularity.
     py_then (py_get track ''explicit'' (PBool False)) (\<lambda>v_explicit.
     py_then (py_get track ''id'' (PStr [])) (\<lambda>v_id.
     py_then (first_artist track ''id'' (PStr [])) (\<lambda>v_artist_id.
     py_then (nested_get track ''album'' ''id'' (PStr [])) (\<lambda>v_album_id.
       Inr \<lparr>rank = idx + 1, track_name = v_name, artist_name = v_artist,
            album_name = v_album, spotify_url = v_url, preview_url = v_preview,
            duration_ms = v_duration, popularity = v_popularity, explicit = v_explicit,
            played_at = played, track_id = v_id, artist_id = v_artist_id,
            album_id = v_album_id\<rparr>)))))))))))))"

text \<open>
  The loop \<^verbatim>\<open>for idx, item in enumerate(results['items'])\<close>: a record is appended only
  once it is complete, so a skipped item leaves no trace in \<^verbatim>\<open>track_data\<close>.
\<close>

fun track_loop :: "nat \<Rightarrow> pyval list \<Rightarrow> track_info list" where
  "track_loop idx [] = []"
| "track_loop idx (item # items) =
     (case make_track_info idx item of
        Inl e \<Rightarrow> track_loop (Suc idx) items
      | Inr info \<Rightarrow> info # track_loop (Suc idx) items)"

text \<open>
  \<^verbatim>\<open>new.get_recently_played_tracks\<close>. The client \<^verbatim>\<open>sp\<close> is the function
  \<^verbatim>\<open>sp.current_user_recently_played\<close> from the limit to the decoded response or the
  exception raised. \<open>None\<close> is the source's \<^verbatim>\<open>return None\<close>.
\<close>

definition clamp_limit :: "int \<Rightarrow> int" where
  "clamp_limit limit = min (max limit 1) 50"

definition get_recently_played_tracks_new ::
  "(int \<Rightarrow> py_error + pyval) \<Rightarrow> int \<Rightarrow> track_info list option" where
  "get_recently_played_tracks_new sp limit =
     (case sp (clamp_limit limit) of
        Inl e \<Rightarrow> None
      | Inr results \<Rightarrow>
          if \<not> truthy results then Some []
          else
            (case py_get results ''items'' PNone of
               Inl e \<Rightarrow> None
             | Inr items \<Rightarrow>
                 if \<not> truthy items then Some []
                 else
                   (case py_then (py_getitem results ''items'') py_iter of
                      Inl e \<Rightarrow> None
                    | Inr its \<Rightarrow> Some (track_loop 0 its))))"

subsection \<open>Display, persistence and the run\<close>

text \<open>
  \<^verbatim>\<open>new.display_tracks\<close> prints; what matters to the run is whether it raises, which it
  does when \<^verbatim>\<open>track['duration_ms'] // 60000\<close> meets a value that is not a number.
\<close>

fun display_tracks :: "track_info list \<Rightarrow> py_error + unit" where
  "display_tracks [] = Inr ()"
| "display_tracks (t # ts) =
     (case py_number (duration_ms t) of Inl e \<Rightarrow> Inl e | Inr d \<Rightarrow> display_tracks ts)"

text \<open>
  \<^verbatim>\<open>new.save_tracks_to_csv\<close>: \<open>to_csv\<close> stands for the import of pandas, the frame and
  the write, and tells whether they went through without an exception.
\<close>

definition save_tracks_to_csv ::
  "(string \<Rightarrow> track_info list \<Rightarrow> bool) \<Rightarrow> track_info list \<Rightarrow> string \<Rightarrow> bool" where
  "save_tracks_to_csv to_csv track_data output_path =
     (if track_data = [] then False else to_csv output_path track_data)"

text \<open>\<^verbatim>\<open>s.lower() == "true"\<close>; no character outside A-Z lowers to a letter of "true".\<close>

definition lower_char :: "char \<Rightarrow> char" where
  "lower_char c =
     (let n = (of_char c :: nat) in if 65 \<le> n \<and> n \<le> 90 then char_of (n + 32) else c)"

definition lower_is_true :: "string \<Rightarrow> bool" where
  "lower_is_true s \<longleftrightarrow> map lower_char s = ''true''"

record new_world =
  new_variables :: "string \<rightharpoonup> string"
  new_environ :: "string \<rightharpoonup> string"
  new_int :: "string \<Rightarrow> int option"
  new_today :: string
  new_create_client :: "user_credentials \<Rightarrow> (int \<Rightarrow> py_error + pyval) option"
  new_to_csv :: "string \<Rightarrow> track_info list \<Rightarrow> bool"
  new_context :: "(string \<times> pyval) list"

text \<open>
  The dict a run returns; the keys absent from the "no data" dict are \<open>None\<close>.
  \<open>average_popularity\<close> is the exact quotient: \<^verbatim>\<open>round(avg_popularity, 2)\<close> on a float
  is not modelled. \<open>output_path\<close> is \<open>Some None\<close> for the value \<^verbatim>\<open>None\<close> under the key.
\<close>

record new_summary =
  tracks_processed :: nat
  unique_artists :: "nat option"
  average_popularity :: "rat option"
  explicit_tracks :: "nat option"
  output_path :: "string option option"
  summary_execution_date :: "pyval option"
  status :: string

text \<open>
  \<^verbatim>\<open>new.run_spotify_recently_played_analysis\<close>. The result pairs what the call returns
  or raises with the batches handed to \<^verbatim>\<open>save_tracks_to_csv\<close>, in order.
\<close>

definition run_spotify_recently_played_analysis ::
  "new_world \<Rightarrow> (py_error + new_summary) \<times> track_info list list" where
  "run_spotify_recently_played_analysis w =
     (case new_int w (the (variable_get (new_variables w) ''SPOTIFY_RECENT_LIMIT'' (Some ''10''))) of
        None \<Rightarrow> (Inl (ValueError ''invalid literal for int()''), [])
      | Some limit \<Rightarrow>
     (let path = the (variable_get (new_variables w) ''SPOTIFY_OUTPUT_PATH''
                        (Some ''recently_played_tracks.csv''));
          display_results = lower_is_true
            (the (variable_get (new_variables w) ''SPOTIFY_DISPLAY_RESULTS'' (Some ''true'')))
      in
     (case get_spotify_user_credentials (new_variables w) (new_environ w) of
        Inl e \<Rightarrow> (Inl e, [])
      | Inr creds \<Rightarrow>
     (case new_create_client w creds of
        None \<Rightarrow> (Inl (Exception ''Failed to create Spotify client''), [])
      | Some sp \<Rightarrow>
     (case get_recently_played_tracks_new sp limit of
        None \<Rightarrow> (Inr \<lparr>tracks_processed = 0, unique_artists = None, average_popularity = None,
                       explicit_tracks = None, output_path = None,
                       summary_execution_date = None, status = ''no_data''\<rparr>, [])
      | Some track_data \<Rightarrow>
      if track_data = []
      then (Inr \<lparr>tracks_processed = 0, unique_artists = None, average_popularity = None,
                  explicit_tracks = None, output_path = None,
                  summary_execution_date = None, status = ''no_data''\<rparr>, [])
      else
     (case (if display_results then display_tracks track_data else Inr ()) of
        Inl e \<Rightarrow> (Inl e, [])
      | Inr u \<Rightarrow>
     (let save_success = save_tracks_to_csv (new_to_csv w) track_data path in
     (case py_len_set (map artist_name track_data) of
        Inl e \<Rightarrow> (Inl e, [track_data])
      | Inr n_artists \<Rightarrow>
     (case py_then (py_sum (map popularity track_data))
                   (\<lambda>s. py_truediv s (length track_data)) of
        Inl e \<Rightarrow> (Inl e, [track_data])
      | Inr avg_popularity \<Rightarrow>
        (Inr \<lparr>tracks_processed = length track_data, unique_artists = Some n_artists,
               average_popularity = Some avg_popularity,
               explicit_tracks = Some (length (filter (\<lambda>t. truthy (explicit t)) track_data)),
               output_path = Some (if save_success then Some path else None),
               summary_execution_date = Some (execution_date (new_context w) (new_today w)),
               status = ''success''\<rparr>, [track_data]))))))))))"

section \<open>The top-tracks pipeline of \<^verbatim>\<open>spotify_etl\<close>\<close>

text \<open>
  \<^verbatim>\<open>spotify_etl.get_spotify_token\<close>: \<open>post\<close> stands for the token request
  (\<^verbatim>\<open>post\<close>, \<^verbatim>\<open>raise_for_status\<close>, \<^verbatim>\<open>response.json()\<close>) made with the two credentials.
  \<open>PNone\<close> is the source's \<^verbatim>\<open>return None\<close>.
\<close>

definition get_spotify_token :: "(string \<Rightarrow> string \<Rightarrow> py_error + pyval) \<Rightarrow> string \<Rightarrow> string \<Rightarrow> pyval" where
  "get_spotify_token post cid csecret =
     (case post cid csecret of
        Inl e \<Rightarrow> PNone
      | Inr json_result \<Rightarrow>
          (case py_get json_result ''access_token'' PNone of
             Inl e \<Rightarrow> PNone
           | Inr token \<Rightarrow> if \<not> truthy token then PNone else token))"

text \<open>
  \<^verbatim>\<open>spotify_etl.search_for_artist\<close>: \<open>search\<close> stands for the search request made
  with the token and the artist name.
\<close>

definition search_for_artist :: "(pyval \<Rightarrow> string \<Rightarrow> py_error + pyval) \<Rightarrow> pyval \<Rightarrow> string \<Rightarrow> pyval" where
  "search_for_artist search token name =
     (case search token name of
        Inl e \<Rightarrow> PNone
      | Inr json_result \<Rightarrow>
          (case py_then (py_get json_result ''artists'' (PDict [])) (\<lambda>a. py_get a ''items'' PNone) of
             Inl e \<Rightarrow> PNone
           | Inr items \<Rightarrow>
               if \<not> truthy items then PNone
               else
                 (case py_then (py_getitem json_result ''artists'') (\<lambda>a.
                       py_then (py_getitem a ''items'') py_first) of
                    Inl e \<Rightarrow> PNone
                  | Inr artist_data \<Rightarrow>
                      (case py_then (py_get artist_data ''name'' PNone)
                              (\<lambda>n. py_get artist_data ''id'' PNone) of
                         Inl e \<Rightarrow> PNone
                       | Inr i \<Rightarrow> artist_data))))"

text \<open>
  \<^verbatim>\<open>spotify_etl.get_songs_by_artist\<close>: \<open>top_tracks\<close> stands for the top-tracks
  request made with the token, the artist id and the market.
\<close>

definition get_songs_by_artist ::
  "(pyval \<Rightarrow> pyval \<Rightarrow> string \<Rightarrow> py_error + pyval) \<Rightarrow> pyval \<Rightarrow> pyval \<Rightarrow> string \<Rightarrow> pyval" where
  "get_songs_by_artist top_tracks token artist market =
     (case top_tracks token artist market of
        Inl e \<Rightarrow> PList []
      | Inr json_result \<Rightarrow>
          (case py_get json_result ''tracks'' (PList []) of
             Inl e \<Rightarrow> PList []
           | Inr tracks \<Rightarrow>
               if \<not> truthy tracks then PList []
               else (case py_len tracks of Inl e \<Rightarrow> PList [] | Inr n \<Rightarrow> tracks)))"

text \<open>The dict \<^verbatim>\<open>track_info\<close> that \<^verbatim>\<open>run_spotify_etl\<close> builds for one top track.\<close>

record top_track =
  top_artist_name :: pyval
  top_song_name :: pyval
  top_popularity :: pyval
  top_duration_ms :: pyval
  top_explicit :: pyval
  top_external_url :: pyval
  top_preview_url :: pyval
  top_album_name :: pyval
  top_release_date :: pyval
  top_track_id :: pyval

definition make_top_track :: "pyval \<Rightarrow> py_error + top_track" where
  "make_top_track track =
     py_then (first_artist track ''name'' (PStr ''Unknown'')) (\<lambda>v_artist.
     py_then (py_get track ''name'' (PStr ''Unknown'')) (\<lambda>v_name.
     py_then (py_get track ''popularity'' (PInt 0)) (\<lambda>v_popularity.
     py_then (py_get track ''duration_ms'' (PInt 0)) (\<lambda>v_duration.
     py_then (py_get track ''explicit'' (PBool False)) (\<lambda>v_explicit.
     py_then (nested_get track ''external_urls'' ''spotify'' (PStr [])) (\<lambda>v_url.
     py_then (py_get track ''preview_url'' (PStr [])) (\<lambda>v_preview.
     py_then (nested_get track ''album'' ''name'' (PStr ''Unknown'')) (\<lambda>v_album.
     py_then (nested_get track ''album'' ''release_date'' (PStr [])) (\<lambda>v_release.
     py_then (py_get track ''id'' (PStr [])) (\<lambda>v_id.
       Inr \<lparr>top_artist_name = v_artist, top_song_name = v_name,
            top_popularity = v_popularity, top_duration_ms = v_duration,
            top_explicit = v_explicit, top_external_url = v_url,
            top_preview_url = v_preview, top_album_name = v_album,
            top_release_date = v_release, top_track_id = v_id\<rparr>))))))))))"

fun top_track_loop :: "pyval list \<Rightarrow> top_track list" where
  "top_track_loop [] = []"
| "top_track_loop (track # tracks) =
     (case make_top_track track of
        Inl e \<Rightarrow> top_track_loop tracks
      | Inr info \<Rightarrow> info # top_track_loop tracks)"

text \<open>
  \<^verbatim>\<open>spotify_etl.save_to_csv\<close>: \<open>to_csv\<close> stands for \<^verbatim>\<open>df.to_csv\<close> and tells whether it
  went through without an exception.
\<close>

definition save_to_csv :: "(string \<Rightarrow> top_track list \<Rightarrow> bool) \<Rightarrow> top_track list \<Rightarrow> string \<Rightarrow> bool" where
  "save_to_csv to_csv df path = to_csv path df"

text \<open>
  What a run of \<^verbatim>\<open>spotify_etl\<close> reads from outside. \<open>etl_mean\<close> is
  \<^verbatim>\<open>df['popularity'].mean()\<close> of pandas, a float (\<open>None\<close> for NaN) or an exception.
\<close>

record etl_world =
  etl_variables :: "string \<rightharpoonup> string"
  etl_environ :: "string \<rightharpoonup> string"
  etl_today :: string
  etl_post :: "string \<Rightarrow> string \<Rightarrow> py_error + pyval"
  etl_search :: "pyval \<Rightarrow> string \<Rightarrow> py_error + pyval"
  etl_top_tracks :: "pyval \<Rightarrow> pyval \<Rightarrow> string \<Rightarrow> py_error + pyval"
  etl_mean :: "pyval list \<Rightarrow> py_error + rat option"
  etl_to_csv :: "string \<Rightarrow> top_track list \<Rightarrow> bool"
  etl_context :: "(string \<times> pyval) list"

record etl_summary =
  etl_artist_name :: string
  etl_tracks_processed :: nat
  etl_output_path :: string
  etl_avg_popularity :: "rat option"
  etl_execution_date :: pyval

definition apostrophe :: char where
  "apostrophe = CHR 0x27"

text \<open>
  \<^verbatim>\<open>spotify_etl.run_spotify_etl\<close>. The result pairs what the call returns or raises
  with the batches handed to \<^verbatim>\<open>save_to_csv\<close>, in order.
\<close>

definition run_spotify_etl :: "etl_world \<Rightarrow> (py_error + etl_summary) \<times> top_track list list" where
  "run_spotify_etl w =
     (let name = the (variable_get (etl_variables w) ''SPOTIFY_ARTIST_NAME'' (Some ''Ed Sheeran''));
          output_bucket = the (variable_get (etl_variables w) ''SPOTIFY_OUTPUT_BUCKET''
                                 (Some ''default-bucket''));
          path = the (variable_get (etl_variables w) ''SPOTIFY_OUTPUT_PATH'' (Some ''songs.csv''));
          market = the (variable_get (etl_variables w) ''SPOTIFY_MARKET'' (Some ''US''));
          full_output_path = ''s3://'' @ output_bucket @ ''/'' @ path
      in
     (case get_spotify_credentials (etl_variables w) (etl_environ w) of
        Inl e \<Rightarrow> (Inl e, [])
      | Inr creds \<Rightarrow>
     (let token = get_spotify_token (etl_post w) (client_id creds) (client_secret creds) in
      if \<not> truthy token then (Inl (Exception ''Failed to obtain Spotify access token''), [])
      else
     (let artist_data = search_for_artist (etl_search w) token name in
      if \<not> truthy artist_data
      then (Inl (Exception (''Artist '' @ [apostrophe] @ name @ [apostrophe] @ '' not found'')), [])
      else
     (case py_getitem artist_data ''id'' of
        Inl e \<Rightarrow> (Inl e, [])
      | Inr artist \<Rightarrow>
     (let tracks = get_songs_by_artist (etl_top_tracks w) token artist market in
      if \<not> truthy tracks
      then (Inl (Exception (''No tracks found for artist '' @ [apostrophe] @ name @ [apostrophe])), [])
      else
     (case py_iter tracks of
        Inl e \<Rightarrow> (Inl e, [])
      | Inr ts \<Rightarrow>
     (let track_data = top_track_loop ts in
      if track_data = [] then (Inl (Exception ''No valid track data processed''), [])
      else
     (case etl_mean w (map top_popularity track_data) of
        Inl e \<Rightarrow> (Inl e, [])
      | Inr avg \<Rightarrow>
     (let success = save_to_csv (etl_to_csv w) track_data full_output_path in
      if \<not> success then (Inl (Exception ''Failed to save data to CSV''), [track_data])
      else
        (Inr \<lparr>etl_artist_name = name, etl_tracks_processed = length track_data,
               etl_output_path = full_output_path, etl_avg_popularity = avg,
               etl_execution_date = execution_date (etl_context w) (etl_today w)\<rparr>,
         [track_data])))))))))))"

section \<open>Reference behaviour the properties are stated against\<close>

text \<open>
  The layered lookup as the resolvers perform it: the stored value when there is one and
  it is not empty, the environment variable otherwise.
\<close>

definition layered :: "(string \<rightharpoonup> string) \<Rightarrow> (string \<rightharpoonup> string) \<Rightarrow> string \<Rightarrow> string option" where
  "layered store env key =
     (case store key of
        None \<Rightarrow> env key
      | Some v \<Rightarrow> if v = [] then env key else Some v)"

text \<open>The value under a key of a dict, or the default when the key is missing.\<close>

definition key_or :: "(string \<times> pyval) list \<Rightarrow> string \<Rightarrow> pyval \<Rightarrow> pyval" where
  "key_or kvs k d = (case map_of kvs k of None \<Rightarrow> d | Some v \<Rightarrow> v)"

text \<open>Appending one full row to the eight columns.\<close>

definition append_row ::
  "columns \<Rightarrow> pyval \<Rightarrow> pyval \<Rightarrow> pyval \<Rightarrow> pyval \<Rightarrow> pyval \<Rightarrow> pyval \<Rightarrow> pyval \<Rightarrow> pyval \<Rightarrow> columns" where
  "append_row c song artist played stamp tid album duration pop =
     \<lparr>song_names = song_names c @ [song], artist_names = artist_names c @ [artist],
      played_at_list = played_at_list c @ [played], timestamps = timestamps c @ [stamp],
      track_ids = track_ids c @ [tid], album_names = album_names c @ [album],
      durations = durations c @ [duration], popularities = popularities c @ [pop]\<rparr>"

text \<open>
  A \<^verbatim>\<open>played_at\<close> cell as the data model types it: a timestamp string, or \<^verbatim>\<open>None\<close>
  where the API sent null.
\<close>

fun timestamp_cell :: "pyval \<Rightarrow> bool" where
  "timestamp_cell (PStr s) = True"
| "timestamp_cell PNone = True"
| "timestamp_cell v = False"

section \<open>Concrete payloads and worlds\<close>

text \<open>A track object and a history item as the API sends them, with the fields the pipelines read.\<close>

definition track_payload :: "string \<Rightarrow> string \<Rightarrow> pyval" where
  "track_payload title artist =
     PDict [(''name'', PStr title),
            (''artists'', PList [PDict [(''name'', PStr artist), (''id'', PStr ''artist-1'')]]),
            (''album'', PDict [(''name'', PStr ''Album''), (''id'', PStr ''album-1'')]),
            (''id'', PStr ''track-1''),
            (''duration_ms'', PInt 180000),
            (''popularity'', PInt 70),
            (''explicit'', PBool False)]"

definition history_item :: "string \<Rightarrow> string \<Rightarrow> pyval list \<Rightarrow> pyval" where
  "history_item title artist played =
     PDict ((''track'', track_payload title artist) # map (\<lambda>p. (''played_at'', p)) played)"

definition response_of :: "pyval list \<Rightarrow> pyval" where
  "response_of items = PDict [(''items'', PList items)]"

text \<open>
  A world for \<^verbatim>\<open>spotify_etl2\<close> in which the token is stored, the limit variable is
  unset, the API answers every query with \<open>response\<close> and the database write succeeds
  or fails as \<open>db_ok\<close> says.
\<close>

definition etl2_example_world :: "pyval \<Rightarrow> bool \<Rightarrow> etl2_world" where
  "etl2_example_world response db_ok =
     \<lparr>etl2_variables = [''SPOTIFY_USER_TOKEN'' \<mapsto> ''user-token''],
      etl2_environ = Map.empty,
      etl2_int = (\<lambda>s. if s = ''50'' then Some 50 else None),
      etl2_yesterday_unix = 1700000000,
      etl2_today = ''2023-11-15'',
      etl2_http_get = (\<lambda>req. Inr response),
      etl2_float64_unique = (\<lambda>cells. Inr True),
      etl2_old_tracks = (\<lambda>stamps. Inr 0),
      etl2_to_sql = (\<lambda>location df. db_ok),
      etl2_nunique = (\<lambda>cells. Inr (length (remdups cells))),
      etl2_min_max = (\<lambda>cells. Inr ''2023-11-14 to 2023-11-14''),
      etl2_context = []\<rparr>"

text \<open>The row \<^verbatim>\<open>process_tracks_data\<close> derives from a \<open>history_item\<close>.\<close>

definition history_row :: "columns \<Rightarrow> string \<Rightarrow> string \<Rightarrow> pyval \<Rightarrow> pyval \<Rightarrow> columns" where
  "history_row c title artist played stamp =
     append_row c (PStr title) (PStr artist) played stamp
       (PStr ''track-1'') (PStr ''Album'') (PInt 180000) (PInt 70)"

text \<open>
  A world for \<^verbatim>\<open>new\<close> in which both credentials are stored, the other variables are
  unset, the client is created, the API answers every query with \<open>response\<close> and the
  CSV write succeeds or fails as \<open>csv_ok\<close> says.
\<close>

definition new_example_world :: "pyval \<Rightarrow> bool \<Rightarrow> new_world" where
  "new_example_world response csv_ok =
     \<lparr>new_variables = [''SPOTIFY_CLIENT_ID'' \<mapsto> ''app-id'', ''SPOTIFY_CLIENT_SECRET'' \<mapsto> ''app-secret''],
      new_environ = Map.empty,
      new_int = (\<lambda>s. if s = ''10'' then Some 10 else None),
      new_today = ''2023-11-15'',
      new_create_client = (\<lambda>creds. Some (\<lambda>limit. Inr response)),
      new_to_csv = (\<lambda>path batch. csv_ok),
      new_context = []\<rparr>"

text \<open>
  A world for \<^verbatim>\<open>spotify_etl\<close> in which both credentials are stored, the other
  variables are unset, the token request succeeds, the search and the top-tracks request
  are answered with the two given bodies and the CSV write succeeds or fails as
  \<open>csv_ok\<close> says.
\<close>

definition etl_example_world :: "pyval \<Rightarrow> pyval \<Rightarrow> bool \<Rightarrow> etl_world" where
  "etl_example_world found tracks csv_ok =
     \<lparr>etl_variables = [''SPOTIFY_CLIENT_ID'' \<mapsto> ''app-id'', ''SPOTIFY_CLIENT_SECRET'' \<mapsto> ''app-secret''],
      etl_environ = Map.empty,
      etl_today = ''2023-11-15'',
      etl_post = (\<lambda>cid csecret. Inr (PDict [(''access_token'', PStr ''app-token'')])),
      etl_search = (\<lambda>token name. Inr found),
      etl_top_tracks = (\<lambda>token artist market. Inr tracks),
      etl_mean = (\<lambda>cells. Inr (Some 70)),
      etl_to_csv = (\<lambda>path df. csv_ok),
      etl_context = [(''ds'', PStr ''2023-11-15'')]\<rparr>"

text \<open>The two "no data" dicts.\<close>

definition etl2_no_data :: etl2_summary where
  "etl2_no_data =
     \<lparr>etl2_tracks_processed = 0, etl2_unique_artists = None, etl2_date_range = None,
      etl2_database_location = None, etl2_execution_date = None, etl2_status = ''no_data''\<rparr>"

definition new_no_data :: new_summary where
  "new_no_data =
     \<lparr>tracks_processed = 0, unique_artists = None, average_popularity = None,
      explicit_tracks = None, output_path = None, summary_execution_date = None,
      status = ''no_data''\<rparr>"

text \<open>The record \<^verbatim>\<open>new.get_recently_played_tracks\<close> derives from a \<open>history_item\<close>.\<close>

definition history_track_info :: "nat \<Rightarrow> string \<Rightarrow> string \<Rightarrow> pyval \<Rightarrow> track_info" where
  "history_track_info idx title artist played =
     \<lparr>rank = idx + 1, track_name = PStr title, artist_name = PStr artist,
      album_name = PStr ''Album'', spotify_url = PStr [], preview_url = PStr [],
      duration_ms = PInt 180000, popularity = PInt 70, explicit = PBool False,
      played_at = played, track_id = PStr ''track-1'', artist_id = PStr ''artist-1'',
      album_id = PStr ''album-1''\<rparr>"

text \<open>The record \<^verbatim>\<open>run_spotify_etl\<close> derives from a \<open>track_payload\<close>.\<close>

definition payload_top_track :: "string \<Rightarrow> string \<Rightarrow> top_track" where
  "payload_top_track title artist =
     \<lparr>top_artist_name = PStr artist, top_song_name = PStr title, top_popularity = PInt 70,
      top_duration_ms = PInt 180000, top_explicit = PBool False, top_external_url = PStr [],
      top_preview_url = PStr [], top_album_name = PStr ''Album'', top_release_date = PStr [],
      top_track_id = PStr ''track-1''\<rparr>"

text \<open>Search responses: one match, and none.\<close>

definition search_found :: pyval where
  "search_found =
     PDict [(''artists'', PDict [(''items'',
        PList [PDict [(''name'', PStr ''Ed Sheeran''), (''id'', PStr ''artist-1'')]])])]"

definition search_empty :: pyval where
  "search_empty = PDict [(''artists'', PDict [(''items'', PList [])])]"

definition top_tracks_response :: "pyval list \<Rightarrow> pyval" where
  "top_tracks_response tracks = PDict [(''tracks'', PList tracks)]"

text \<open>
  The items \<^verbatim>\<open>process_tracks_data\<close> handles in one piece: the loop body either fails
  before its first append (the item is not a dict, or its track is not one) or runs to
  its last append (the artists are falsy or start with a dict, the album is a dict, and
  \<^verbatim>\<open>played_at\<close> is falsy, a string or a list).
\<close>

fun is_dict :: "pyval \<Rightarrow> bool" where
  "is_dict (PDict kvs) = True"
| "is_dict v = False"

fun artists_ok :: "pyval \<Rightarrow> bool" where
  "artists_ok (PList (PDict a # rest)) = True"
| "artists_ok v = (\<not> truthy v)"

fun played_ok :: "pyval \<Rightarrow> bool" where
  "played_ok (PStr s) = True"
| "played_ok (PList xs) = True"
| "played_ok v = (\<not> truthy v)"

definition aligned_item :: "pyval \<Rightarrow> bool" where
  "aligned_item item =
     (case item of
        PDict kvs \<Rightarrow>
          (case key_or kvs ''track'' (PDict []) of
             PDict t \<Rightarrow>
               artists_ok (key_or t ''artists'' (PList [])) \<and>
               is_dict (key_or t ''album'' (PDict [])) \<and>
               played_ok (key_or kvs ''played_at'' (PStr []))
           | _ \<Rightarrow> True)
      | _ \<Rightarrow> True)"

section \<open>Properties\<close>

subsection \<open>Basic facts about the Python operations\<close>

lemma py_get_dict: "py_get (PDict kvs) k d = Inr (key_or kvs k d)"
  by (simp add: key_or_def)

lemma str_truthy_iff: "str_truthy v \<longleftrightarrow> (\<exists>s. v = Some s \<and> s \<noteq> [])"
  by (cases v) simp_all

lemma layered_eq:
  "(if \<not> str_truthy (variable_get store key None) then getenv env key
    else variable_get store key None) = layered store env key"
  by (simp add: variable_get_def getenv_def layered_def split: option.splits)

subsection \<open>The limit sent to the API\<close>

lemma clamp_limit_bounds: "1 \<le> clamp_limit limit \<and> clamp_limit limit \<le> 50"
  by (simp add: clamp_limit_def)

lemma clamp_limit_examples: "clamp_limit 200 = 50 \<and> clamp_limit 0 = 1"
  by (simp add: clamp_limit_def)

lemma recent_params_limit: "req_limit (recent_params y token limit) = min limit 50"
  by (simp add: recent_params_def)

text \<open>
  C2. \<^verbatim>\<open>new.get_recently_played_tracks\<close> clamps the limit into [1, 50]
  (\<open>clamp_limit_bounds\<close>), but \<^verbatim>\<open>spotify_etl2.get_recently_played_tracks\<close> only caps it
  at 50: a requested limit of 0 is sent to the API as 0, and a negative one unchanged.
\<close>

theorem C2_etl2_limit_zero_sent_unclamped:
  "req_limit (recent_params 1700000000 ''token'' 0) = 0 \<and>
   req_limit (recent_params 1700000000 ''token'' (- 3)) = - 3 \<and>
   req_limit (recent_params 1700000000 ''token'' 200) = 50"
  by (simp add: recent_params_def)

subsection \<open>Credential resolution\<close>

lemma get_spotify_credentials_layered:
  "get_spotify_credentials store env =
     (if str_truthy (layered store env ''SPOTIFY_CLIENT_ID'') \<and>
         str_truthy (layered store env ''SPOTIFY_CLIENT_SECRET'')
      then Inr \<lparr>client_id = the (layered store env ''SPOTIFY_CLIENT_ID''),
                client_secret = the (layered store env ''SPOTIFY_CLIENT_SECRET'')\<rparr>
      else Inl (ValueError
        ''Spotify credentials not found. Please set SPOTIFY_CLIENT_ID and SPOTIFY_CLIENT_SECRET''))"
  unfolding get_spotify_credentials_def Let_def layered_eq by simp

lemma get_spotify_user_credentials_ok:
  assumes "str_truthy (layered store env ''SPOTIFY_CLIENT_ID'')"
      and "str_truthy (layered store env ''SPOTIFY_CLIENT_SECRET'')"
  shows "\<exists>c. get_spotify_user_credentials store env = Inr c \<and>
           user_client_id c = the (layered store env ''SPOTIFY_CLIENT_ID'') \<and>
           user_client_secret c = the (layered store env ''SPOTIFY_CLIENT_SECRET'')"
  using assms unfolding get_spotify_user_credentials_def Let_def layered_eq by simp

lemma get_spotify_user_credentials_missing:
  assumes "\<not> (str_truthy (layered store env ''SPOTIFY_CLIENT_ID'') \<and>
              str_truthy (layered store env ''SPOTIFY_CLIENT_SECRET''))"
  shows "\<exists>msg. get_spotify_user_credentials store env = Inl (ValueError msg)"
  using assms unfolding get_spotify_user_credentials_def Let_def layered_eq by auto

text \<open>
  C6, as the spec states it, fails: a stored client id that is present but empty does
  send the resolver to the environment variable.
\<close>

theorem C6_empty_stored_value_falls_back:
  "[''SPOTIFY_CLIENT_ID'' \<mapsto> [], ''SPOTIFY_CLIENT_SECRET'' \<mapsto> ''stored-secret'']
     ''SPOTIFY_CLIENT_ID'' = Some [] \<and>
   get_spotify_credentials
     [''SPOTIFY_CLIENT_ID'' \<mapsto> [], ''SPOTIFY_CLIENT_SECRET'' \<mapsto> ''stored-secret'']
     [''SPOTIFY_CLIENT_ID'' \<mapsto> ''env-id'']
   = Inr \<lparr>client_id = ''env-id'', client_secret = ''stored-secret''\<rparr>"
  by (simp add: get_spotify_credentials_def variable_get_def getenv_def)

text \<open>
  C6, amended. Both resolvers (\<^verbatim>\<open>spotify_etl.get_spotify_credentials\<close> and
  \<^verbatim>\<open>new.get_spotify_user_credentials\<close>) take the stored value when it is present and
  not empty, and the environment variable when the stored value is absent or empty.
  Resolution succeeds with these two values exactly when both are present and not empty;
  otherwise, so also when both are unresolvable, it fails with the missing-credentials
  \<^verbatim>\<open>ValueError\<close>.
\<close>

theorem C6_layered_credential_resolution:
  fixes store env :: "string \<rightharpoonup> string"
  defines "cid \<equiv> layered store env ''SPOTIFY_CLIENT_ID''"
      and "csecret \<equiv> layered store env ''SPOTIFY_CLIENT_SECRET''"
  shows
    "(str_truthy cid \<and> str_truthy csecret \<longrightarrow>
        get_spotify_credentials store env
          = Inr \<lparr>client_id = the cid, client_secret = the csecret\<rparr> \<and>
        (\<exists>c. get_spotify_user_credentials store env = Inr c \<and>
             user_client_id c = the cid \<and> user_client_secret c = the csecret)) \<and>
     (\<not> (str_truthy cid \<and> str_truthy csecret) \<longrightarrow>
        (\<exists>msg. get_spotify_credentials store env = Inl (ValueError msg)) \<and>
        (\<exists>msg. get_spotify_user_credentials store env = Inl (ValueError msg)))"
proof (cases "str_truthy cid \<and> str_truthy csecret")
  case True
  then have "get_spotify_credentials store env
      = Inr \<lparr>client_id = the cid, client_secret = the csecret\<rparr>"
    unfolding cid_def csecret_def by (simp add: get_spotify_credentials_layered)
  moreover from True have "\<exists>c. get_spotify_user_credentials store env = Inr c \<and>
      user_client_id c = the cid \<and> user_client_secret c = the csecret"
    unfolding cid_def csecret_def by (simp add: get_spotify_user_credentials_ok)
  ultimately show ?thesis using True by blast
next
  case False
  then have "\<exists>msg. get_spotify_credentials store env = Inl (ValueError msg)"
    unfolding cid_def csecret_def by (simp add: get_spotify_credentials_layered)
  moreover from False have "\<exists>msg. get_spotify_user_credentials store env = Inl (ValueError msg)"
    unfolding cid_def csecret_def by (rule get_spotify_user_credentials_missing)
  ultimately show ?thesis using False by blast
qed

theorem C6_layered_credential_resolution_witness:
  "get_spotify_credentials [''SPOTIFY_CLIENT_ID'' \<mapsto> ''stored-id'']
       [''SPOTIFY_CLIENT_SECRET'' \<mapsto> ''env-secret'']
     = Inr \<lparr>client_id = ''stored-id'', client_secret = ''env-secret''\<rparr> \<and>
   (\<exists>msg. get_spotify_credentials Map.empty Map.empty = Inl (ValueError msg)) \<and>
   (\<exists>msg. get_spotify_user_credentials Map.empty Map.empty = Inl (ValueError msg))"
  using C6_layered_credential_resolution
          [of "[''SPOTIFY_CLIENT_ID'' \<mapsto> ''stored-id'']"
              "[''SPOTIFY_CLIENT_SECRET'' \<mapsto> ''env-secret'']"]
        C6_layered_credential_resolution [of Map.empty Map.empty]
  by (simp add: layered_def)

subsection \<open>The validator\<close>

lemma not_distinct_keys:
  assumes "i < j" and "j < length xs" and "xs ! i = xs ! j"
  shows "\<not> distinct (map hash_key xs)"
proof
  assume d: "distinct (map hash_key xs)"
  from assms have len: "i < length (map hash_key xs)" "j < length (map hash_key xs)" by simp_all
  from assms have "map hash_key xs ! i = map hash_key xs ! j" by simp
  with nth_eq_iff_index_eq [OF d len] have "i = j" by blast
  with assms show False by simp
qed

lemma same_length_not_empty:
  assumes "same_length df" and "j < length (played_at_list df)"
  shows "\<not> df_empty df"
  using assms by (auto simp: same_length_def df_empty_def df_len_def)

lemma string_cell_not_float64:
  assumes "i < length xs" and "xs ! i = PStr s"
  shows "\<not> float64_column xs"
proof
  assume "float64_column xs"
  then have "list_all int_or_null xs" by (simp add: float64_column_def)
  moreover from assms have "PStr s \<in> set xs" by (metis nth_mem)
  ultimately show False by (auto simp: list_all_iff)
qed

lemma timestamp_cells_hashable: "list_all timestamp_cell xs \<Longrightarrow> list_all hashable xs"
proof (induction xs)
  case (Cons x xs)
  then show ?case by (cases x) simp_all
qed simp

lemma timestamp_cells_keys: "list_all timestamp_cell xs \<Longrightarrow> map hash_key xs = xs"
proof (induction xs)
  case (Cons x xs)
  then show ?case by (cases x) simp_all
qed simp

lemma timestamp_cells_no_int: "list_all timestamp_cell xs \<Longrightarrow> \<not> list_ex is_int xs"
proof (induction xs)
  case (Cons x xs)
  then show ?case by (cases x) simp_all
qed simp

lemma timestamp_cells_not_float64: "list_all timestamp_cell xs \<Longrightarrow> \<not> float64_column xs"
  by (simp add: float64_column_def timestamp_cells_no_int)

lemma duplicate_cells_raise:
  assumes "\<not> df_empty df" and "i < j" and "j < length (played_at_list df)"
      and "played_at_list df ! i = PStr s" and "played_at_list df ! j = PStr s"
  shows "(\<exists>e. check_if_valid_data fu old df = Inl e) \<and>
         (list_all hashable (played_at_list df) \<longrightarrow>
            check_if_valid_data fu old df = Inl (Exception
              ''Primary Key check is violated - duplicate played_at timestamps found''))"
proof -
  have "\<not> distinct (map hash_key (played_at_list df))"
    using assms(2,3) by (rule not_distinct_keys) (simp add: assms(4,5))
  moreover have "\<not> float64_column (played_at_list df)"
    using assms(3,5) by (rule string_cell_not_float64)
  ultimately show ?thesis
    using assms(1) by (simp add: check_if_valid_data_def is_unique_def)
qed

lemma distinct_cells_pass:
  assumes "\<not> df_empty df" and "list_all timestamp_cell (played_at_list df)"
      and "distinct (played_at_list df)"
  shows "check_if_valid_data fu old df =
     Inr (True, (if isnull_any df then [NullValuesFound] else []) @
                (case old (timestamps df) of
                   Inl e \<Rightarrow> [TimestampValidationError e]
                 | Inr n \<Rightarrow> if 0 < n then [OldTracksFound n] else []))"
  using assms timestamp_cells_hashable [OF assms(2)] timestamp_cells_keys [OF assms(2)]
    timestamp_cells_not_float64 [OF assms(2)]
  by (simp add: check_if_valid_data_def is_unique_def)

subsection \<open>How far a run of \<^verbatim>\<open>spotify_etl2\<close> gets\<close>

lemma process_tracks_data_same_length:
  "process_tracks_data data = Inr df \<Longrightarrow> same_length df"
  by (auto simp: process_tracks_data_def DataFrame_def split: sum.splits if_splits)

lemma etl2_run_validation_raises:
  assumes "etl2_int w (the (variable_get (etl2_variables w) ''SPOTIFY_RECENT_LIMIT'' (Some ''50'')))
             = Some limit"
      and "get_spotify_user_token (etl2_variables w) (etl2_environ w) = Inr token"
      and "get_recently_played_tracks_etl2 (etl2_http_get w) (etl2_yesterday_unix w) token limit
             = data"
      and "truthy data"
      and "process_tracks_data data = Inr df"
      and "\<not> df_empty df"
      and "check_if_valid_data (etl2_float64_unique w) (etl2_old_tracks w) df = Inl e"
  shows "run_spotify_recently_played_etl w = (Inl e, [])"
  using assms by (simp add: run_spotify_recently_played_etl_def)

lemma etl2_run_validation_passes:
  assumes "etl2_int w (the (variable_get (etl2_variables w) ''SPOTIFY_RECENT_LIMIT'' (Some ''50'')))
             = Some limit"
      and "get_spotify_user_token (etl2_variables w) (etl2_environ w) = Inr token"
      and "get_recently_played_tracks_etl2 (etl2_http_get w) (etl2_yesterday_unix w) token limit
             = data"
      and "truthy data"
      and "process_tracks_data data = Inr df"
      and "\<not> df_empty df"
      and "check_if_valid_data (etl2_float64_unique w) (etl2_old_tracks w) df = Inr v"
  shows "snd (run_spotify_recently_played_etl w) = [df]"
  using assms
  by (simp add: run_spotify_recently_played_etl_def Let_def split: sum.splits)

subsection \<open>What one item adds to the columns\<close>

lemma process_item_complete:
  assumes "py_get item ''track'' (PDict []) = Inr (PDict t)"
      and "py_get item ''played_at'' (PStr []) = Inr played"
      and "(if truthy (key_or t ''artists'' (PList []))
            then py_then (py_first (key_or t ''artists'' (PList [])))
                   (\<lambda>a. py_get a ''name'' (PStr ''Unknown''))
            else Inr (PStr ''Unknown'')) = Inr artist"
      and "(if truthy played then py_slice10 played else Inr (PStr [])) = Inr stamp"
      and "py_get (key_or t ''album'' (PDict [])) ''name'' (PStr ''Unknown'') = Inr album"
  shows "process_item item c =
           append_row c (key_or t ''name'' (PStr ''Unknown'')) artist played stamp
             (key_or t ''id'' (PStr [])) album
             (key_or t ''duration_ms'' (PInt 0)) (key_or t ''popularity'' (PInt 0))"
  using assms
  by (simp add: process_item_def py_get_dict append_row_def Let_def
        del: py_get.simps split del: if_split)

lemma process_item_not_dict:
  assumes "\<forall>kvs. item \<noteq> PDict kvs"
  shows "process_item item c = c"
  using assms by (cases item) (simp_all add: process_item_def)

lemma process_item_played_at:
  assumes "map_of kvs ''played_at'' = None"
  shows "played_at_list (process_item (PDict kvs) c) = played_at_list c \<or>
         played_at_list (process_item (PDict kvs) c) = played_at_list c @ [PStr []]"
  using assms by (simp add: process_item_def Let_def split: sum.splits)

lemma same_length_no_columns: "same_length no_columns"
  by (simp add: same_length_def no_columns_def)

lemma same_length_append_row:
  "same_length c \<Longrightarrow> same_length (append_row c s a p st t al d po)"
  by (simp add: same_length_def append_row_def)

lemma played_at_append_row:
  "played_at_list (append_row c s a p st t al d po) = played_at_list c @ [p]"
  by (simp add: append_row_def)

lemma df_empty_append_row: "\<not> df_empty (append_row c s a p st t al d po)"
  by (simp add: df_empty_def df_len_def append_row_def)

lemma process_history_item:
  "process_item (history_item title artist [PStr p]) c =
     history_row c title artist (PStr p) (PStr (take 10 p))"
  by (simp add: history_row_def history_item_def track_payload_def process_item_def
      append_row_def)

lemma process_history_item_no_played_at:
  "process_item (history_item title artist []) c =
     history_row c title artist (PStr []) (PStr [])"
  by (simp add: history_row_def history_item_def track_payload_def process_item_def
      append_row_def)

lemma process_two_history_items:
  "process_tracks_data (response_of
      [history_item t1 a1 [PStr p1], history_item t2 a2 [PStr p2]])
   = Inr (history_row (history_row no_columns t1 a1 (PStr p1) (PStr (take 10 p1)))
            t2 a2 (PStr p2) (PStr (take 10 p2)))"
  by (simp add: process_tracks_data_def response_of_def process_history_item DataFrame_def
      history_row_def same_length_append_row same_length_no_columns)

lemma process_two_history_items_no_played_at:
  "process_tracks_data (response_of [history_item t1 a1 [], history_item t2 a2 []])
   = Inr (history_row (history_row no_columns t1 a1 (PStr []) (PStr []))
            t2 a2 (PStr []) (PStr []))"
  by (simp add: process_tracks_data_def response_of_def process_history_item_no_played_at
      DataFrame_def history_row_def same_length_append_row same_length_no_columns)

subsection \<open>The example world of \<^verbatim>\<open>spotify_etl2\<close>\<close>

lemma example_world_limit:
  "etl2_int (etl2_example_world r ok)
     (the (variable_get (etl2_variables (etl2_example_world r ok)) ''SPOTIFY_RECENT_LIMIT''
        (Some ''50''))) = Some 50"
  by (simp add: etl2_example_world_def variable_get_def)

lemma example_world_token:
  "get_spotify_user_token (etl2_variables (etl2_example_world r ok))
     (etl2_environ (etl2_example_world r ok)) = Inr ''user-token''"
  by (simp add: etl2_example_world_def get_spotify_user_token_def variable_get_def)

lemma example_world_fetch:
  "get_recently_played_tracks_etl2 (etl2_http_get (etl2_example_world (response_of items) ok))
     y token limit = response_of items"
  by (simp add: etl2_example_world_def get_recently_played_tracks_etl2_def response_of_def)

lemma truthy_response_of: "truthy (response_of items)"
  by (simp add: response_of_def)

subsection \<open>Duplicate timestamps\<close>

text \<open>
  C1. A frame in which two rows carry the same non-empty \<^verbatim>\<open>played_at\<close> string makes
  \<^verbatim>\<open>check_if_valid_data\<close> raise: the primary-key exception whenever the column can be
  hashed at all (every cell a string, number, boolean or \<^verbatim>\<open>None\<close>), and the hashing
  \<^verbatim>\<open>TypeError\<close> otherwise. A run whose normalized batch is such a frame raises and
  hands nothing to \<^verbatim>\<open>save_to_database\<close>.
\<close>

theorem C1_duplicate_played_at_is_fatal:
  fixes w :: etl2_world and df :: dataframe and token :: string and limit :: int
  defines "data \<equiv>
    get_recently_played_tracks_etl2 (etl2_http_get w) (etl2_yesterday_unix w) token limit"
  assumes "same_length df"
      and "i < j" and "j < length (played_at_list df)"
      and "played_at_list df ! i = PStr s" and "played_at_list df ! j = PStr s"
      and "s \<noteq> []"
  shows "(\<exists>e. check_if_valid_data fu old df = Inl e) \<and>
         (list_all hashable (played_at_list df) \<longrightarrow>
            check_if_valid_data fu old df = Inl (Exception
              ''Primary Key check is violated - duplicate played_at timestamps found'')) \<and>
         (etl2_int w (the (variable_get (etl2_variables w) ''SPOTIFY_RECENT_LIMIT'' (Some ''50'')))
            = Some limit \<and>
          get_spotify_user_token (etl2_variables w) (etl2_environ w) = Inr token \<and>
          truthy data \<and> process_tracks_data data = Inr df \<longrightarrow>
            (\<exists>e. run_spotify_recently_played_etl w = (Inl e, [])))"
proof -
  have ne: "\<not> df_empty df"
    using assms(2,4) by (rule same_length_not_empty)
  have raises: "(\<exists>e. check_if_valid_data g f df = Inl e) \<and>
         (list_all hashable (played_at_list df) \<longrightarrow>
            check_if_valid_data g f df = Inl (Exception
              ''Primary Key check is violated - duplicate played_at timestamps found''))"
    for g f
    using ne assms(3-6) by (rule duplicate_cells_raise)
  have "\<exists>e. run_spotify_recently_played_etl w = (Inl e, [])"
    if "etl2_int w (the (variable_get (etl2_variables w) ''SPOTIFY_RECENT_LIMIT'' (Some ''50'')))
            = Some limit"
      and "get_spotify_user_token (etl2_variables w) (etl2_environ w) = Inr token"
      and "truthy data" and "process_tracks_data data = Inr df"
  proof -
    from raises obtain e
      where "check_if_valid_data (etl2_float64_unique w) (etl2_old_tracks w) df = Inl e"
      by blast
    with that ne have "run_spotify_recently_played_etl w = (Inl e, [])"
      unfolding data_def by (intro etl2_run_validation_raises) auto
    then show ?thesis by blast
  qed
  with raises show ?thesis by blast
qed

theorem C1_duplicate_played_at_is_fatal_witness:
  "check_if_valid_data (\<lambda>cells. Inr True) (\<lambda>stamps. Inr 0)
     (history_row (history_row no_columns ''One'' ''A''
        (PStr ''2023-11-14T10:00:00Z'') (PStr ''2023-11-14''))
        ''Two'' ''B'' (PStr ''2023-11-14T10:00:00Z'') (PStr ''2023-11-14''))
     = Inl (Exception ''Primary Key check is violated - duplicate played_at timestamps found'') \<and>
   (\<exists>e. run_spotify_recently_played_etl
      (etl2_example_world (response_of
         [history_item ''One'' ''A'' [PStr ''2023-11-14T10:00:00Z''],
          history_item ''Two'' ''B'' [PStr ''2023-11-14T10:00:00Z'']]) True) = (Inl e, []))"
proof -
  let ?df = "history_row (history_row no_columns ''One'' ''A''
        (PStr ''2023-11-14T10:00:00Z'') (PStr ''2023-11-14''))
        ''Two'' ''B'' (PStr ''2023-11-14T10:00:00Z'') (PStr ''2023-11-14'')"
  let ?r = "response_of
         [history_item ''One'' ''A'' [PStr ''2023-11-14T10:00:00Z''],
          history_item ''Two'' ''B'' [PStr ''2023-11-14T10:00:00Z'']]"
  have sl: "same_length ?df"
    by (simp add: history_row_def same_length_append_row same_length_no_columns)
  have cells: "played_at_list ?df = [PStr ''2023-11-14T10:00:00Z'', PStr ''2023-11-14T10:00:00Z'']"
    by (simp add: history_row_def played_at_append_row no_columns_def)
  have frame: "process_tracks_data ?r = Inr ?df"
    by (simp add: process_two_history_items)
  note inst = C1_duplicate_played_at_is_fatal
    [where df = ?df and i = 0 and j = 1 and s = "''2023-11-14T10:00:00Z''"
       and w = "etl2_example_world ?r True" and token = "''user-token''" and limit = 50
       and fu = "\<lambda>cells. Inr True" and old = "\<lambda>stamps. Inr 0", OF sl]
  show ?thesis
    using inst frame
    by (simp add: cells example_world_limit example_world_token example_world_fetch
        truthy_response_of)
qed

subsection \<open>Distinct timestamps\<close>



subsection \<open>Missing timestamps\<close>

text \<open>
  C10. The uniqueness check looks at every \<^verbatim>\<open>played_at\<close> cell, the empty ones too. An
  item without a \<^verbatim>\<open>played_at\<close> key contributes the empty string to the column (or
  nothing, when the item is dropped before that append); a frame with two such cells
  makes \<^verbatim>\<open>check_if_valid_data\<close> raise: the primary-key exception whenever the column
  can be hashed.
\<close>

theorem C10_missing_played_at_counts_as_duplicate:
  assumes "same_length df"
      and "i < j" and "j < length (played_at_list df)"
      and "played_at_list df ! i = PStr []" and "played_at_list df ! j = PStr []"
  shows "(\<exists>e. check_if_valid_data fu old df = Inl e) \<and>
         (list_all hashable (played_at_list df) \<longrightarrow>
            check_if_valid_data fu old df = Inl (Exception
              ''Primary Key check is violated - duplicate played_at timestamps found'')) \<and>
         (map_of kvs ''played_at'' = None \<longrightarrow>
            played_at_list (process_item (PDict kvs) c) = played_at_list c \<or>
            played_at_list (process_item (PDict kvs) c) = played_at_list c @ [PStr []])"
proof -
  have ne: "\<not> df_empty df"
    using assms(1,3) by (rule same_length_not_empty)
  have "(\<exists>e. check_if_valid_data fu old df = Inl e) \<and>
         (list_all hashable (played_at_list df) \<longrightarrow>
            check_if_valid_data fu old df = Inl (Exception
              ''Primary Key check is violated - duplicate played_at timestamps found''))"
    using ne assms(2-5) by (rule duplicate_cells_raise)
  then show ?thesis using process_item_played_at [of kvs c] by blast
qed

theorem C10_missing_played_at_counts_as_duplicate_witness:
  "process_tracks_data (response_of [history_item ''One'' ''A'' [], history_item ''Two'' ''B'' []])
     = Inr (history_row (history_row no_columns ''One'' ''A'' (PStr []) (PStr []))
              ''Two'' ''B'' (PStr []) (PStr [])) \<and>
   check_if_valid_data (\<lambda>cells. Inr True) (\<lambda>stamps. Inr 0)
     (history_row (history_row no_columns ''One'' ''A'' (PStr []) (PStr []))
        ''Two'' ''B'' (PStr []) (PStr []))
     = Inl (Exception ''Primary Key check is violated - duplicate played_at timestamps found'')"
proof -
  let ?df = "history_row (history_row no_columns ''One'' ''A'' (PStr []) (PStr []))
        ''Two'' ''B'' (PStr []) (PStr [])"
  have sl: "same_length ?df"
    by (simp add: history_row_def same_length_append_row same_length_no_columns)
  have cells: "played_at_list ?df = [PStr [], PStr []]"
    by (simp add: history_row_def played_at_append_row no_columns_def)
  have "check_if_valid_data (\<lambda>cells. Inr True) (\<lambda>stamps. Inr 0) ?df
     = Inl (Exception ''Primary Key check is violated - duplicate played_at timestamps found'')"
    using C10_missing_played_at_counts_as_duplicate
      [where df = ?df and i = 0 and j = 1 and fu = "\<lambda>cells. Inr True"
         and old = "\<lambda>stamps. Inr 0", OF sl]
    by (simp add: cells)
  then show ?thesis by (simp add: process_two_history_items_no_played_at)
qed

subsection \<open>An empty item list\<close>

lemma map_of_Some_not_Nil: "map_of r k = Some v \<Longrightarrow> r \<noteq> []"
  by auto

lemma process_tracks_data_no_items:
  assumes "map_of r ''items'' = Some (PList [])"
  shows "process_tracks_data (PDict r) = Inr no_columns"
  using assms by (simp add: process_tracks_data_def DataFrame_def same_length_no_columns)

lemma df_empty_no_columns: "df_empty no_columns"
  by (simp add: df_empty_def df_len_def no_columns_def)

lemma etl2_fetch_no_items:
  assumes "map_of r ''items'' = Some (PList [])"
      and "http (recent_params y token limit) = Inr (PDict r)"
  shows "get_recently_played_tracks_etl2 http y token limit = PDict r"
  using assms by (simp add: get_recently_played_tracks_etl2_def)

lemma new_fetch_no_items:
  assumes "map_of r ''items'' = Some (PList [])"
      and "sp (clamp_limit limit) = Inr (PDict r)"
  shows "get_recently_played_tracks_new sp limit = Some []"
  using assms by (simp add: get_recently_played_tracks_new_def)

text \<open>
  C3. When the recently-played response carries an empty \<^verbatim>\<open>items\<close> list, both
  normalizers yield an empty batch, and both orchestrators
  (\<^verbatim>\<open>spotify_etl2.run_spotify_recently_played_etl\<close>,
  \<^verbatim>\<open>new.run_spotify_recently_played_analysis\<close>), once configuration, credentials and the
  request have gone through, return the summary with status "no_data" and zero tracks
  processed, and hand nothing to the sink.
\<close>

theorem C3_empty_items_no_data:
  fixes w2 :: etl2_world and wn :: new_world
  assumes "map_of r ''items'' = Some (PList [])"
  shows "process_tracks_data (PDict r) = Inr no_columns \<and> df_empty no_columns \<and>
         (etl2_int w2 (the (variable_get (etl2_variables w2) ''SPOTIFY_RECENT_LIMIT'' (Some ''50'')))
            = Some limit \<and>
          get_spotify_user_token (etl2_variables w2) (etl2_environ w2) = Inr token \<and>
          etl2_http_get w2 (recent_params (etl2_yesterday_unix w2) token limit) = Inr (PDict r)
          \<longrightarrow> run_spotify_recently_played_etl w2 = (Inr etl2_no_data, [])) \<and>
         (new_int wn (the (variable_get (new_variables wn) ''SPOTIFY_RECENT_LIMIT'' (Some ''10'')))
            = Some nlimit \<and>
          get_spotify_user_credentials (new_variables wn) (new_environ wn) = Inr creds \<and>
          new_create_client wn creds = Some sp \<and>
          sp (clamp_limit nlimit) = Inr (PDict r)
          \<longrightarrow> get_recently_played_tracks_new sp nlimit = Some [] \<and>
              run_spotify_recently_played_analysis wn = (Inr new_no_data, []))"
proof -
  have batch: "process_tracks_data (PDict r) = Inr no_columns"
    using assms by (rule process_tracks_data_no_items)
  have "run_spotify_recently_played_etl w2 = (Inr etl2_no_data, [])"
    if "etl2_int w2 (the (variable_get (etl2_variables w2) ''SPOTIFY_RECENT_LIMIT'' (Some ''50'')))
          = Some limit"
      and "get_spotify_user_token (etl2_variables w2) (etl2_environ w2) = Inr token"
      and "etl2_http_get w2 (recent_params (etl2_yesterday_unix w2) token limit) = Inr (PDict r)"
  proof -
    have "get_recently_played_tracks_etl2 (etl2_http_get w2) (etl2_yesterday_unix w2) token limit
        = PDict r"
      using assms that(3) by (rule etl2_fetch_no_items)
    with that batch map_of_Some_not_Nil [OF assms] show ?thesis
      by (simp add: run_spotify_recently_played_etl_def df_empty_no_columns etl2_no_data_def)
  qed
  moreover have "get_recently_played_tracks_new sp nlimit = Some [] \<and>
      run_spotify_recently_played_analysis wn = (Inr new_no_data, [])"
    if "new_int wn (the (variable_get (new_variables wn) ''SPOTIFY_RECENT_LIMIT'' (Some ''10'')))
          = Some nlimit"
      and "get_spotify_user_credentials (new_variables wn) (new_environ wn) = Inr creds"
      and "new_create_client wn creds = Some sp"
      and "sp (clamp_limit nlimit) = Inr (PDict r)"
  proof -
    have "get_recently_played_tracks_new sp nlimit = Some []"
      using assms that(4) by (rule new_fetch_no_items)
    with that show ?thesis
      by (simp add: run_spotify_recently_played_analysis_def new_no_data_def)
  qed
  ultimately show ?thesis using batch df_empty_no_columns by blast
qed

lemma new_example_world_limit:
  "new_int (new_example_world r ok)
     (the (variable_get (new_variables (new_example_world r ok)) ''SPOTIFY_RECENT_LIMIT''
        (Some ''10''))) = Some 10"
  by (simp add: new_example_world_def variable_get_def)

lemma new_example_world_credentials:
  "get_spotify_user_credentials (new_variables (new_example_world r ok))
     (new_environ (new_example_world r ok))
   = Inr \<lparr>user_client_id = ''app-id'', user_client_secret = ''app-secret'',
          redirect_uri = ''http://localhost:8080/callback''\<rparr>"
  by (simp add: new_example_world_def get_spotify_user_credentials_def variable_get_def
      getenv_def)

lemma new_example_world_client:
  "new_create_client (new_example_world r ok) creds = Some (\<lambda>limit. Inr r)"
  by (simp add: new_example_world_def)

theorem C3_empty_items_no_data_witness:
  "process_tracks_data (response_of []) = Inr no_columns \<and>
   run_spotify_recently_played_etl (etl2_example_world (response_of []) True)
     = (Inr etl2_no_data, []) \<and>
   run_spotify_recently_played_analysis (new_example_world (response_of []) True)
     = (Inr new_no_data, [])"
  using C3_empty_items_no_data
    [where r = "[(''items'', PList [])]"
       and ?w2.0 = "etl2_example_world (response_of []) True"
       and limit = 50 and token = "''user-token''"
       and wn = "new_example_world (response_of []) True" and nlimit = 10
       and creds = "\<lparr>user_client_id = ''app-id'', user_client_secret = ''app-secret'',
          redirect_uri = ''http://localhost:8080/callback''\<rparr>"
       and sp = "\<lambda>limit. Inr (response_of [])"]
  by (simp add: example_world_limit example_world_token new_example_world_limit
      new_example_world_credentials new_example_world_client)
     (simp add: response_of_def etl2_example_world_def)

subsection \<open>A failing sink\<close>

lemma etl2_sink_failure:
  assumes "snd (run_spotify_recently_played_etl w) = [df]"
      and "\<not> etl2_to_sql w DATABASE_LOCATION df"
  shows "fst (run_spotify_recently_played_etl w)
           = Inl (Exception ''Failed to save data to database'')"
  using assms
  by (auto simp: run_spotify_recently_played_etl_def Let_def save_to_database_def
      split: option.splits sum.splits if_splits)

lemma etl_sink_failure:
  assumes "snd (run_spotify_etl w) = [batch]"
      and "\<not> etl_to_csv w
             (''s3://'' @ the (variable_get (etl_variables w) ''SPOTIFY_OUTPUT_BUCKET''
                                (Some ''default-bucket''))
              @ ''/'' @ the (variable_get (etl_variables w) ''SPOTIFY_OUTPUT_PATH''
                                (Some ''songs.csv''))) batch"
  shows "fst (run_spotify_etl w) = Inl (Exception ''Failed to save data to CSV'')"
  using assms
  by (auto simp: run_spotify_etl_def Let_def save_to_csv_def
      split: option.splits sum.splits if_splits)

lemma new_sink_outcome:
  assumes "snd (run_spotify_recently_played_analysis w) = [batch]"
      and "fst (run_spotify_recently_played_analysis w) = Inr s"
  shows "output_path s =
           Some (if new_to_csv w (the (variable_get (new_variables w) ''SPOTIFY_OUTPUT_PATH''
                                         (Some ''recently_played_tracks.csv''))) batch
                 then Some (the (variable_get (new_variables w) ''SPOTIFY_OUTPUT_PATH''
                                   (Some ''recently_played_tracks.csv'')))
                 else None)"
  using assms
  by (auto simp: run_spotify_recently_played_analysis_def Let_def save_tracks_to_csv_def
      split: option.splits sum.splits if_splits)
lemma example_run_reaches_sink:
  assumes "p1 \<noteq> p2"
  shows "snd (run_spotify_recently_played_etl (etl2_example_world (response_of
            [history_item t1 a1 [PStr p1], history_item t2 a2 [PStr p2]]) ok))
         = [history_row (history_row no_columns t1 a1 (PStr p1) (PStr (take 10 p1)))
              t2 a2 (PStr p2) (PStr (take 10 p2))]"
proof (rule etl2_run_validation_passes)
  let ?df = "history_row (history_row no_columns t1 a1 (PStr p1) (PStr (take 10 p1)))
              t2 a2 (PStr p2) (PStr (take 10 p2))"
  let ?r = "response_of [history_item t1 a1 [PStr p1], history_item t2 a2 [PStr p2]]"
  show "etl2_int (etl2_example_world ?r ok)
     (the (variable_get (etl2_variables (etl2_example_world ?r ok)) ''SPOTIFY_RECENT_LIMIT''
        (Some ''50''))) = Some 50"
    by (rule example_world_limit)
  show "get_spotify_user_token (etl2_variables (etl2_example_world ?r ok))
     (etl2_environ (etl2_example_world ?r ok)) = Inr ''user-token''"
    by (rule example_world_token)
  show "get_recently_played_tracks_etl2 (etl2_http_get (etl2_example_world ?r ok))
     (etl2_yesterday_unix (etl2_example_world ?r ok)) ''user-token'' 50 = ?r"
    by (rule example_world_fetch)
  show "truthy ?r" by (rule truthy_response_of)
  show "process_tracks_data ?r = Inr ?df" by (rule process_two_history_items)
  show ne: "\<not> df_empty ?df" by (simp add: history_row_def df_empty_append_row)
  have "played_at_list ?df = [PStr p1, PStr p2]"
    by (simp add: history_row_def played_at_append_row no_columns_def)
  with assms ne show "check_if_valid_data (etl2_float64_unique (etl2_example_world ?r ok))
      (etl2_old_tracks (etl2_example_world ?r ok)) ?df
      = Inr (True, (if isnull_any ?df then [NullValuesFound] else []) @
                (case etl2_old_tracks (etl2_example_world ?r ok) (timestamps ?df) of
                   Inl e \<Rightarrow> [TimestampValidationError e]
                 | Inr n \<Rightarrow> if 0 < n then [OldTracksFound n] else []))"
    by (intro distinct_cells_pass) simp_all
qed

subsection \<open>The example world of \<^verbatim>\<open>new\<close>\<close>

lemma make_history_track_info:
  "make_track_info idx (history_item title artist [p]) = Inr (history_track_info idx title artist p)"
  by (simp add: make_track_info_def history_item_def track_payload_def first_artist_def
      nested_get_def history_track_info_def)

lemma new_fetch_one_history_item:
  "get_recently_played_tracks_new (\<lambda>limit. Inr (response_of [history_item title artist [p]])) n
     = Some [history_track_info 0 title artist p]"
  by (simp add: get_recently_played_tracks_new_def response_of_def make_history_track_info)

lemma lower_is_true_default: "lower_is_true ''true''"
  by (simp add: lower_is_true_def lower_char_def)

lemma new_example_run:
  "run_spotify_recently_played_analysis
     (new_example_world (response_of [history_item title artist [p]]) ok)
   = (Inr \<lparr>tracks_processed = 1, unique_artists = Some 1, average_popularity = Some 70,
            explicit_tracks = Some 0,
            output_path = Some (if ok then Some ''recently_played_tracks.csv'' else None),
            summary_execution_date = Some (PStr ''2023-11-15''), status = ''success''\<rparr>,
      [[history_track_info 0 title artist p]])"
  unfolding run_spotify_recently_played_analysis_def new_example_world_limit
    new_example_world_credentials
  by (simp add: new_example_world_def new_fetch_one_history_item variable_get_def
      lower_is_true_default history_track_info_def save_tracks_to_csv_def py_len_set_def
      py_truediv_def execution_date_def)

text \<open>
  C4. A failed write never ends in a silent success. In \<^verbatim>\<open>spotify_etl2\<close> a run that
  handed a frame to \<^verbatim>\<open>save_to_database\<close> and got \<^verbatim>\<open>False\<close> back raises "Failed to save
  data to database". In \<^verbatim>\<open>new\<close> a run that handed a batch to \<^verbatim>\<open>save_tracks_to_csv\<close> and
  got \<^verbatim>\<open>False\<close> back either raises or returns a summary whose \<^verbatim>\<open>output_path\<close> is
  \<^verbatim>\<open>None\<close>, while after a successful write the summary carries the path: the caller
  can tell the two apart.
\<close>

theorem C4_sink_failure_is_surfaced:
  fixes w2 :: etl2_world and wn :: new_world
  defines "path \<equiv> the (variable_get (new_variables wn) ''SPOTIFY_OUTPUT_PATH''
                          (Some ''recently_played_tracks.csv''))"
  shows "(snd (run_spotify_recently_played_etl w2) = [df] \<and>
          \<not> etl2_to_sql w2 DATABASE_LOCATION df \<longrightarrow>
            fst (run_spotify_recently_played_etl w2)
              = Inl (Exception ''Failed to save data to database'')) \<and>
         (snd (run_spotify_recently_played_analysis wn) = [batch] \<and>
          \<not> new_to_csv wn path batch \<longrightarrow>
            (\<exists>e. fst (run_spotify_recently_played_analysis wn) = Inl e) \<or>
            (\<exists>s. fst (run_spotify_recently_played_analysis wn) = Inr s \<and>
                 output_path s = Some None)) \<and>
         (snd (run_spotify_recently_played_analysis wn) = [batch] \<and>
          new_to_csv wn path batch \<and>
          fst (run_spotify_recently_played_analysis wn) = Inr s \<longrightarrow>
            output_path s = Some (Some path))"
proof (intro conjI impI)
  assume "snd (run_spotify_recently_played_etl w2) = [df] \<and>
          \<not> etl2_to_sql w2 DATABASE_LOCATION df"
  then show "fst (run_spotify_recently_played_etl w2)
              = Inl (Exception ''Failed to save data to database'')"
    by (simp add: etl2_sink_failure)
next
  assume a: "snd (run_spotify_recently_played_analysis wn) = [batch] \<and>
          \<not> new_to_csv wn path batch"
  show "(\<exists>e. fst (run_spotify_recently_played_analysis wn) = Inl e) \<or>
            (\<exists>s. fst (run_spotify_recently_played_analysis wn) = Inr s \<and>
                 output_path s = Some None)"
  proof (cases "fst (run_spotify_recently_played_analysis wn)")
    case (Inl e)
    then show ?thesis by blast
  next
    case (Inr s)
    with a new_sink_outcome [of wn batch s] have "output_path s = Some None"
      by (simp add: path_def)
    with Inr show ?thesis by blast
  qed
next
  assume "snd (run_spotify_recently_played_analysis wn) = [batch] \<and>
          new_to_csv wn path batch \<and>
          fst (run_spotify_recently_played_analysis wn) = Inr s"
  with new_sink_outcome [of wn batch s] show "output_path s = Some (Some path)"
    by (simp add: path_def)
qed

theorem C4_sink_failure_is_surfaced_witness:
  "fst (run_spotify_recently_played_etl (etl2_example_world (response_of
      [history_item ''One'' ''A'' [PStr ''2023-11-14T10:00:00Z''],
       history_item ''Two'' ''B'' [PStr ''2023-11-14T11:30:00Z'']]) False))
     = Inl (Exception ''Failed to save data to database'') \<and>
   (\<exists>s. fst (run_spotify_recently_played_analysis (new_example_world (response_of
            [history_item ''One'' ''A'' [PStr ''2023-11-14T10:00:00Z'']]) False)) = Inr s \<and>
        output_path s = Some None) \<and>
   (\<exists>s. fst (run_spotify_recently_played_analysis (new_example_world (response_of
            [history_item ''One'' ''A'' [PStr ''2023-11-14T10:00:00Z'']]) True)) = Inr s \<and>
        output_path s = Some (Some ''recently_played_tracks.csv''))"
proof -
  let ?r2 = "response_of
      [history_item ''One'' ''A'' [PStr ''2023-11-14T10:00:00Z''],
       history_item ''Two'' ''B'' [PStr ''2023-11-14T11:30:00Z'']]"
  let ?df = "history_row (history_row no_columns ''One'' ''A''
          (PStr ''2023-11-14T10:00:00Z'') (PStr ''2023-11-14''))
          ''Two'' ''B'' (PStr ''2023-11-14T11:30:00Z'') (PStr ''2023-11-14'')"
  let ?rn = "response_of [history_item ''One'' ''A'' [PStr ''2023-11-14T10:00:00Z'']]"
  let ?batch = "[history_track_info 0 ''One'' ''A'' (PStr ''2023-11-14T10:00:00Z'')]"
  have sink2: "snd (run_spotify_recently_played_etl (etl2_example_world ?r2 False)) = [?df]"
    using example_run_reaches_sink
      [of "''2023-11-14T10:00:00Z''" "''2023-11-14T11:30:00Z''" "''One''" "''A''" "''Two''" "''B''" False]
    by simp
  have down: "\<not> etl2_to_sql (etl2_example_world ?r2 False) DATABASE_LOCATION ?df"
    by (simp add: etl2_example_world_def)
  have first: "fst (run_spotify_recently_played_etl (etl2_example_world ?r2 False))
     = Inl (Exception ''Failed to save data to database'')"
    using C4_sink_failure_is_surfaced
      [where ?w2.0 = "etl2_example_world ?r2 False" and df = ?df] sink2 down
    by blast
  have sinkn: "snd (run_spotify_recently_played_analysis (new_example_world ?rn ok)) = [?batch]"
    for ok by (simp add: new_example_run)
  have csv: "new_to_csv (new_example_world ?rn ok) path ?batch = ok" for ok path
    by (simp add: new_example_world_def)
  have isr: "\<exists>s. fst (run_spotify_recently_played_analysis (new_example_world ?rn ok)) = Inr s"
    for ok by (simp add: new_example_run)
  have path: "the (variable_get (new_variables (new_example_world ?rn ok)) ''SPOTIFY_OUTPUT_PATH''
                          (Some ''recently_played_tracks.csv'')) = ''recently_played_tracks.csv''"
    for ok by (simp add: new_example_world_def variable_get_def)
  have second: "\<exists>s. fst (run_spotify_recently_played_analysis (new_example_world ?rn False))
        = Inr s \<and> output_path s = Some None"
    using C4_sink_failure_is_surfaced
      [where wn = "new_example_world ?rn False" and batch = ?batch]
      sinkn [of False] csv [of False] isr [of False]
    by auto
  obtain s where s: "fst (run_spotify_recently_played_analysis (new_example_world ?rn True))
        = Inr s"
    using isr [of True] by blast
  have "output_path s = Some (Some ''recently_played_tracks.csv'')"
    using C4_sink_failure_is_surfaced
      [where wn = "new_example_world ?rn True" and batch = ?batch and s = s]
      sinkn [of True] csv [of True] s path [of True]
    by simp
  with s have third: "\<exists>s. fst (run_spotify_recently_played_analysis
        (new_example_world ?rn True)) = Inr s \<and>
        output_path s = Some (Some ''recently_played_tracks.csv'')"
    by blast
  from first second third show ?thesis by blast
qed

subsection \<open>An artist that is not found\<close>

lemma search_for_artist_no_items:
  assumes "search token name = Inr found"
      and "py_then (py_get found ''artists'' (PDict [])) (\<lambda>a. py_get a ''items'' PNone) = Inr items"
      and "\<not> truthy items"
  shows "search_for_artist search token name = PNone"
  using assms by (simp add: search_for_artist_def)

lemma run_spotify_etl_artist_not_found:
  assumes "get_spotify_credentials (etl_variables w) (etl_environ w) = Inr creds"
      and "truthy (get_spotify_token (etl_post w) (client_id creds) (client_secret creds))"
      and "\<not> truthy (search_for_artist (etl_search w)
              (get_spotify_token (etl_post w) (client_id creds) (client_secret creds))
              (the (variable_get (etl_variables w) ''SPOTIFY_ARTIST_NAME'' (Some ''Ed Sheeran''))))"
  shows "run_spotify_etl w =
           (Inl (Exception (''Artist '' @ [apostrophe]
              @ the (variable_get (etl_variables w) ''SPOTIFY_ARTIST_NAME'' (Some ''Ed Sheeran''))
              @ [apostrophe] @ '' not found'')), [])"
  using assms by (simp add: run_spotify_etl_def Let_def)

text \<open>
  C7. Once credentials and token are there, a search that returns no match for the
  configured artist name (the response's \<^verbatim>\<open>artists.items\<close> is missing or empty, so
  \<^verbatim>\<open>search_for_artist\<close> returns \<^verbatim>\<open>None\<close>) makes \<^verbatim>\<open>run_spotify_etl\<close> raise
  "Artist '<name>' not found", and nothing is handed to \<^verbatim>\<open>save_to_csv\<close>.
\<close>

theorem C7_artist_not_found_no_persistence:
  fixes w :: etl_world
  defines "name \<equiv> the (variable_get (etl_variables w) ''SPOTIFY_ARTIST_NAME'' (Some ''Ed Sheeran''))"
  assumes "get_spotify_credentials (etl_variables w) (etl_environ w) = Inr creds"
      and "get_spotify_token (etl_post w) (client_id creds) (client_secret creds) = token"
      and "truthy token"
      and "etl_search w token name = Inr found"
      and "py_then (py_get found ''artists'' (PDict [])) (\<lambda>a. py_get a ''items'' PNone) = Inr items"
      and "\<not> truthy items"
  shows "search_for_artist (etl_search w) token name = PNone \<and>
         run_spotify_etl w =
           (Inl (Exception (''Artist '' @ [apostrophe] @ name @ [apostrophe] @ '' not found'')), [])"
proof -
  have none: "search_for_artist (etl_search w) token name = PNone"
    using assms(5-7) by (rule search_for_artist_no_items)
  with assms(2-4) have "run_spotify_etl w =
           (Inl (Exception (''Artist '' @ [apostrophe] @ name @ [apostrophe] @ '' not found'')), [])"
    unfolding name_def by (intro run_spotify_etl_artist_not_found) auto
  with none show ?thesis by blast
qed

lemma etl_example_world_credentials:
  "get_spotify_credentials (etl_variables (etl_example_world f t ok))
     (etl_environ (etl_example_world f t ok))
   = Inr \<lparr>client_id = ''app-id'', client_secret = ''app-secret''\<rparr>"
  by (simp add: etl_example_world_def get_spotify_credentials_def variable_get_def getenv_def)

lemma etl_example_world_token:
  "get_spotify_token (etl_post (etl_example_world f t ok)) cid csecret = PStr ''app-token''"
  by (simp add: etl_example_world_def get_spotify_token_def)

lemma etl_example_world_name:
  "the (variable_get (etl_variables (etl_example_world f t ok)) ''SPOTIFY_ARTIST_NAME''
     (Some ''Ed Sheeran'')) = ''Ed Sheeran''"
  by (simp add: etl_example_world_def variable_get_def)

theorem C7_artist_not_found_no_persistence_witness:
  "run_spotify_etl (etl_example_world search_empty
      (top_tracks_response [track_payload ''Shape of You'' ''Ed Sheeran'']) True)
   = (Inl (Exception (''Artist '' @ [apostrophe] @ ''Ed Sheeran'' @ [apostrophe]
        @ '' not found'')), [])"
proof -
  let ?w = "etl_example_world search_empty
      (top_tracks_response [track_payload ''Shape of You'' ''Ed Sheeran'']) True"
  have search: "etl_search ?w (PStr ''app-token'') ''Ed Sheeran'' = Inr search_empty"
    by (simp add: etl_example_world_def)
  have items: "py_then (py_get search_empty ''artists'' (PDict []))
      (\<lambda>a. py_get a ''items'' PNone) = Inr (PList [])"
    by (simp add: search_empty_def)
  show ?thesis
    using C7_artist_not_found_no_persistence
      [where w = ?w and creds = "\<lparr>client_id = ''app-id'', client_secret = ''app-secret''\<rparr>"
         and token = "PStr ''app-token''" and found = search_empty and items = "PList []"]
      search items
    by (simp add: etl_example_world_credentials etl_example_world_token etl_example_world_name)
qed

subsection \<open>The average is never taken over an empty batch\<close>

lemma py_number_error: "py_number v = Inl e \<Longrightarrow> e = TypeError"
  by (cases v) simp_all

lemma py_sum_error: "py_sum xs = Inl e \<Longrightarrow> e = TypeError"
  by (induction xs arbitrary: e) (auto split: sum.splits dest: py_number_error)

lemma display_tracks_error: "display_tracks ts = Inl e \<Longrightarrow> e = TypeError"
  by (induction ts) (auto split: sum.splits dest: py_number_error)

lemma py_len_set_error: "py_len_set xs = Inl e \<Longrightarrow> e = TypeError"
  by (simp add: py_len_set_def split: if_splits)

lemma get_spotify_user_credentials_error:
  "get_spotify_user_credentials store env = Inl e \<Longrightarrow> \<exists>msg. e = ValueError msg"
  by (auto simp: get_spotify_user_credentials_def Let_def split: if_splits)

lemma average_error:
  assumes "py_then (py_sum xs) (\<lambda>s. py_truediv s n) = Inl e" and "0 < n"
  shows "e = TypeError"
  using assms by (cases "py_sum xs") (auto simp: py_truediv_def dest: py_sum_error)

lemma average_value:
  assumes "py_then (py_sum xs) (\<lambda>s. py_truediv s n) = Inr avg"
  shows "\<exists>total. avg = of_int total / of_nat n"
  using assms by (cases "py_sum xs") (auto simp: py_truediv_def split: if_splits)

lemma new_run_no_zero_division:
  "fst (run_spotify_recently_played_analysis w) \<noteq> Inl ZeroDivisionError"
proof
  assume "fst (run_spotify_recently_played_analysis w) = Inl ZeroDivisionError"
  then show False
    unfolding run_spotify_recently_played_analysis_def Let_def
    by (auto split: option.splits sum.splits if_splits
        dest: get_spotify_user_credentials_error display_tracks_error py_len_set_error
          average_error)
qed

lemma new_run_average:
  assumes "fst (run_spotify_recently_played_analysis w) = Inr s"
      and "average_popularity s = Some avg"
  shows "0 < tracks_processed s \<and>
         (\<exists>total. avg = of_int total / of_nat (tracks_processed s))"
  using assms
  unfolding run_spotify_recently_played_analysis_def Let_def
  by (auto split: option.splits sum.splits if_splits dest: average_value)

lemma etl_run_mean_nonempty:
  assumes "\<And>cells. cells \<noteq> [] \<Longrightarrow> m cells = m' cells"
  shows "run_spotify_etl (w\<lparr>etl_mean := m\<rparr>) = run_spotify_etl (w\<lparr>etl_mean := m'\<rparr>)"
proof -
  have "m (map top_popularity batch) = m' (map top_popularity batch)" if "batch \<noteq> []"
    for batch :: "top_track list"
    using that by (intro assms) simp
  then show ?thesis
    unfolding run_spotify_etl_def Let_def
    by (auto split: sum.splits if_splits)
qed
text \<open>
  C9. The quotient behind \<^verbatim>\<open>average_popularity\<close> is only taken over a non-empty batch.
  In \<^verbatim>\<open>new\<close> no run ends in \<^verbatim>\<open>ZeroDivisionError\<close>, and a summary that carries an
  average counts at least one track, the average being a sum divided by that count.
  In \<^verbatim>\<open>spotify_etl\<close> the mean is never asked of an empty column: two worlds whose means
  agree on every non-empty column run alike.
\<close>

theorem C9_division_by_zero_unreachable:
  fixes wn :: new_world and w :: etl_world
  shows "fst (run_spotify_recently_played_analysis wn) \<noteq> Inl ZeroDivisionError \<and>
         (fst (run_spotify_recently_played_analysis wn) = Inr s \<and>
          average_popularity s = Some avg \<longrightarrow>
            0 < tracks_processed s \<and>
            (\<exists>total. avg = of_int total / of_nat (tracks_processed s))) \<and>
         ((\<forall>cells. cells \<noteq> [] \<longrightarrow> m cells = m' cells) \<longrightarrow>
            run_spotify_etl (w\<lparr>etl_mean := m\<rparr>) = run_spotify_etl (w\<lparr>etl_mean := m'\<rparr>))"
  using new_run_no_zero_division [of wn] new_run_average [of wn s avg]
    etl_run_mean_nonempty [of m m' w]
  by blast

subsection \<open>The example world of \<^verbatim>\<open>spotify_etl\<close>\<close>

lemma make_payload_top_track:
  "make_top_track (track_payload title artist) = Inr (payload_top_track title artist)"
  by (simp add: make_top_track_def track_payload_def first_artist_def nested_get_def
      payload_top_track_def)

lemma search_for_artist_found:
  "search_for_artist (\<lambda>token name. Inr search_found) token name
     = PDict [(''name'', PStr ''Ed Sheeran''), (''id'', PStr ''artist-1'')]"
  by (simp add: search_for_artist_def search_found_def)

lemma get_songs_by_artist_one:
  "get_songs_by_artist (\<lambda>token artist market. Inr (top_tracks_response [t])) token artist market
     = PList [t]"
  by (simp add: get_songs_by_artist_def top_tracks_response_def)

lemma etl_example_run:
  "run_spotify_etl
     ((etl_example_world search_found (top_tracks_response [track_payload title artist]) True)
        \<lparr>etl_mean := \<lambda>cells. Inr (Some 70)\<rparr>)
   = (Inr \<lparr>etl_artist_name = ''Ed Sheeran'', etl_tracks_processed = 1,
            etl_output_path = ''s3://default-bucket/songs.csv'',
            etl_avg_popularity = Some 70, etl_execution_date = PStr ''2023-11-15''\<rparr>,
      [[payload_top_track title artist]])"
  by (simp add: run_spotify_etl_def etl_example_world_def get_spotify_credentials_def
      variable_get_def getenv_def get_spotify_token_def search_for_artist_found
      get_songs_by_artist_one make_payload_top_track save_to_csv_def execution_date_def)

theorem C9_division_by_zero_unreachable_witness:
  "fst (run_spotify_recently_played_analysis (new_example_world (response_of
      [history_item ''One'' ''A'' [PStr ''2023-11-14T10:00:00Z'']]) True))
     \<noteq> Inl ZeroDivisionError \<and>
   run_spotify_etl
     ((etl_example_world search_found
         (top_tracks_response [track_payload ''Shape of You'' ''Ed Sheeran'']) True)
        \<lparr>etl_mean := \<lambda>cells. if cells = [] then Inl ZeroDivisionError else Inr (Some 70)\<rparr>)
   = (Inr \<lparr>etl_artist_name = ''Ed Sheeran'', etl_tracks_processed = 1,
            etl_output_path = ''s3://default-bucket/songs.csv'',
            etl_avg_popularity = Some 70, etl_execution_date = PStr ''2023-11-15''\<rparr>,
      [[payload_top_track ''Shape of You'' ''Ed Sheeran'']])"
  using C9_division_by_zero_unreachable
    [where wn = "new_example_world (response_of
        [history_item ''One'' ''A'' [PStr ''2023-11-14T10:00:00Z'']]) True"
       and w = "etl_example_world search_found
         (top_tracks_response [track_payload ''Shape of You'' ''Ed Sheeran'']) True"
       and m = "\<lambda>cells. if cells = [] then Inl ZeroDivisionError else Inr (Some 70)"
       and m' = "\<lambda>cells. Inr (Some 70)"]
  by (simp add: etl_example_run)

subsection \<open>Normalization, item by item\<close>

lemma track_loop_append:
  "track_loop idx (xs @ ys) = track_loop idx xs @ track_loop (idx + length xs) ys"
  by (induction xs arbitrary: idx) (auto split: sum.splits)

lemma track_loop_item:
  "track_loop idx (xs @ item # ys) =
     track_loop idx xs
     @ (case make_track_info (idx + length xs) item of Inl e \<Rightarrow> [] | Inr info \<Rightarrow> [info])
     @ track_loop (Suc (idx + length xs)) ys"
  by (simp add: track_loop_append split: sum.splits)

lemma new_fetch_items:
  assumes "sp (clamp_limit limit) = Inr (PDict r)"
      and "map_of r ''items'' = Some (PList its)"
  shows "get_recently_played_tracks_new sp limit = Some (track_loop 0 its)"
  using assms map_of_Some_not_Nil [OF assms(2)]
  by (cases its) (simp_all add: get_recently_played_tracks_new_def)

lemma make_track_info_no_track:
  assumes "map_of kvs ''track'' = None"
  shows "make_track_info idx (PDict kvs) = Inl KeyError"
  using assms by (simp add: make_track_info_def)

lemma first_artist_none:
  assumes "\<not> truthy (key_or t ''artists'' PNone)"
  shows "first_artist (PDict t) k d = Inr d"
  using assms by (simp add: first_artist_def py_get_dict del: py_get.simps)

lemma first_artist_first:
  assumes "map_of t ''artists'' = Some (PList (PDict a # rest))" and "map_of a k = Some v"
  shows "first_artist (PDict t) k d = Inr v"
  using assms by (simp add: first_artist_def)

lemma make_track_info_complete:
  assumes "map_of kvs ''track'' = Some (PDict t)"
      and "first_artist (PDict t) ''name'' (PStr ''Unknown'') = Inr an"
      and "first_artist (PDict t) ''id'' (PStr []) = Inr ai"
      and "key_or t ''album'' (PDict []) = PDict al"
      and "key_or t ''external_urls'' (PDict []) = PDict urls"
  shows "make_track_info idx (PDict kvs) =
     Inr \<lparr>rank = idx + 1,
          track_name = key_or t ''name'' (PStr ''Unknown''),
          artist_name = an,
          album_name = key_or al ''name'' (PStr ''Unknown''),
          spotify_url = key_or urls ''spotify'' (PStr []),
          preview_url = key_or t ''preview_url'' (PStr []),
          duration_ms = key_or t ''duration_ms'' (PInt 0),
          popularity = key_or t ''popularity'' (PInt 0),
          explicit = key_or t ''explicit'' (PBool False),
          played_at = key_or kvs ''played_at'' (PStr []),
          track_id = key_or t ''id'' (PStr []),
          artist_id = ai,
          album_id = key_or al ''id'' (PStr [])\<rparr>"
  using assms
  by (simp add: make_track_info_def nested_get_def py_get_dict del: py_get.simps)

lemma played_ok_stamp:
  "played_ok v \<Longrightarrow> \<exists>st. (if truthy v then py_slice10 v else Inr (PStr [])) = Inr st"
  by (cases v) auto

lemma artists_ok_name:
  "artists_ok v \<Longrightarrow>
     \<exists>an. (if truthy v then py_then (py_first v) (\<lambda>a. py_get a ''name'' (PStr ''Unknown''))
           else Inr (PStr ''Unknown'')) = Inr an"
  by (cases v rule: artists_ok.cases) auto

lemma is_dict_iff: "is_dict v \<longleftrightarrow> (\<exists>kvs. v = PDict kvs)"
  by (cases v) auto

lemma aligned_item_same_length:
  assumes "aligned_item item" and "same_length c"
  shows "same_length (process_item item c)"
proof (cases item)
  case (PDict kvs)
  show ?thesis
  proof (cases "key_or kvs ''track'' (PDict [])")
    case (PDict t)
    from assms(1) \<open>item = PDict kvs\<close> PDict
    have a: "artists_ok (key_or t ''artists'' (PList []))"
      and b: "is_dict (key_or t ''album'' (PDict []))"
      and p: "played_ok (key_or kvs ''played_at'' (PStr []))"
      by (simp_all add: aligned_item_def)
    from artists_ok_name [OF a] obtain an where an: "(if truthy (key_or t ''artists'' (PList []))
            then py_then (py_first (key_or t ''artists'' (PList [])))
                   (\<lambda>a. py_get a ''name'' (PStr ''Unknown''))
            else Inr (PStr ''Unknown'')) = Inr an"
      by blast
    from b obtain al where al: "key_or t ''album'' (PDict []) = PDict al"
      by (auto simp: is_dict_iff)
    from played_ok_stamp [OF p] obtain st where st:
      "(if truthy (key_or kvs ''played_at'' (PStr []))
        then py_slice10 (key_or kvs ''played_at'' (PStr [])) else Inr (PStr [])) = Inr st"
      by blast
    have "process_item item c =
           append_row c (key_or t ''name'' (PStr ''Unknown'')) an
             (key_or kvs ''played_at'' (PStr [])) st
             (key_or t ''id'' (PStr [])) (key_or al ''name'' (PStr ''Unknown''))
             (key_or t ''duration_ms'' (PInt 0)) (key_or t ''popularity'' (PInt 0))"
      using \<open>item = PDict kvs\<close> PDict an st al
      by (intro process_item_complete) (simp_all add: py_get_dict del: py_get.simps)
    with assms(2) show ?thesis by (simp add: same_length_append_row)
  qed (use assms(2) \<open>item = PDict kvs\<close> in
        \<open>simp_all add: process_item_def py_get_dict del: py_get.simps(1)\<close>)
qed (use assms(2) in \<open>simp_all add: process_item_def\<close>)

lemma aligned_items_same_length:
  assumes "list_all aligned_item its" and "same_length c"
  shows "same_length (process_items its c)"
  using assms by (induction its arbitrary: c) (simp_all add: aligned_item_same_length)

lemma process_tracks_data_aligned:
  assumes "map_of r ''items'' = Some (PList its)" and "list_all aligned_item its"
  shows "process_tracks_data (PDict r) = Inr (process_items its no_columns)"
  using assms aligned_items_same_length [OF assms(2) same_length_no_columns]
  by (simp add: process_tracks_data_def DataFrame_def)

lemma process_item_not_is_dict:
  assumes "\<not> is_dict item"
  shows "process_item item c = c"
  using assms by (intro process_item_not_dict) auto

lemma process_item_defaults:
  assumes "key_or kvs ''track'' (PDict []) = PDict t"
      and "key_or t ''album'' (PDict []) = PDict al"
      and "key_or kvs ''played_at'' (PStr []) = PStr p"
      and "(\<not> truthy (key_or t ''artists'' (PList [])) \<and> an = PStr ''Unknown'') \<or>
           (\<exists>a rest. key_or t ''artists'' (PList []) = PList (PDict a # rest) \<and>
                     an = key_or a ''name'' (PStr ''Unknown''))"
  shows "process_item (PDict kvs) c =
           append_row c (key_or t ''name'' (PStr ''Unknown'')) an (PStr p) (PStr (take 10 p))
             (key_or t ''id'' (PStr [])) (key_or al ''name'' (PStr ''Unknown''))
             (key_or t ''duration_ms'' (PInt 0)) (key_or t ''popularity'' (PInt 0))"
proof (rule process_item_complete)
  show "py_get (PDict kvs) ''track'' (PDict []) = Inr (PDict t)"
    using assms(1) by (simp add: py_get_dict del: py_get.simps)
  show "py_get (PDict kvs) ''played_at'' (PStr []) = Inr (PStr p)"
    using assms(3) by (simp add: py_get_dict del: py_get.simps)
  show "(if truthy (key_or t ''artists'' (PList []))
         then py_then (py_first (key_or t ''artists'' (PList [])))
                (\<lambda>a. py_get a ''name'' (PStr ''Unknown''))
         else Inr (PStr ''Unknown'')) = Inr an"
    using assms(4) by (auto simp: py_get_dict simp del: py_get.simps)
  show "(if truthy (PStr p) then py_slice10 (PStr p) else Inr (PStr [])) = Inr (PStr (take 10 p))"
    by simp
  show "py_get (key_or t ''album'' (PDict [])) ''name'' (PStr ''Unknown'')
          = Inr (key_or al ''name'' (PStr ''Unknown''))"
    using assms(2) by (simp add: py_get_dict del: py_get.simps)
qed

lemma process_item_no_track:
  assumes "map_of kvs ''track'' = None"
      and "key_or kvs ''played_at'' (PStr []) = PStr p"
  shows "process_item (PDict kvs) c =
           append_row c (PStr ''Unknown'') (PStr ''Unknown'') (PStr p) (PStr (take 10 p))
             (PStr []) (PStr ''Unknown'') (PInt 0) (PInt 0)"
  using process_item_defaults [of kvs "[]" "[]" p "PStr ''Unknown''" c] assms
  by (simp add: key_or_def)

lemma make_track_info_defaults:
  assumes "map_of kvs ''track'' = Some (PDict t)"
      and "key_or t ''album'' (PDict []) = PDict al"
      and "key_or t ''external_urls'' (PDict []) = PDict urls"
      and "(\<not> truthy (key_or t ''artists'' PNone) \<and> an = PStr ''Unknown'' \<and> ai = PStr []) \<or>
           (\<exists>a rest. map_of t ''artists'' = Some (PList (PDict a # rest)) \<and>
                     map_of a ''name'' = Some an \<and> map_of a ''id'' = Some ai)"
  shows "make_track_info idx (PDict kvs) =
     Inr \<lparr>rank = idx + 1,
          track_name = key_or t ''name'' (PStr ''Unknown''),
          artist_name = an,
          album_name = key_or al ''name'' (PStr ''Unknown''),
          spotify_url = key_or urls ''spotify'' (PStr []),
          preview_url = key_or t ''preview_url'' (PStr []),
          duration_ms = key_or t ''duration_ms'' (PInt 0),
          popularity = key_or t ''popularity'' (PInt 0),
          explicit = key_or t ''explicit'' (PBool False),
          played_at = key_or kvs ''played_at'' (PStr []),
          track_id = key_or t ''id'' (PStr []),
          artist_id = ai,
          album_id = key_or al ''id'' (PStr [])\<rparr>"
proof (rule make_track_info_complete [OF assms(1) _ _ assms(2,3)])
  show "first_artist (PDict t) ''name'' (PStr ''Unknown'') = Inr an"
    using assms(4) by (auto simp: first_artist_none first_artist_first)
  show "first_artist (PDict t) ''id'' (PStr []) = Inr ai"
    using assms(4) by (auto simp: first_artist_none first_artist_first)
qed

text \<open>
  By its \<^verbatim>\<open>item.get("track", {})\<close> \<^verbatim>\<open>spotify_etl2.process_tracks_data\<close> does not skip an
  item that has no \<^verbatim>\<open>track\<close> key; it turns it into a row of defaults.
\<close>

lemma item_without_track_is_not_skipped:
  "process_tracks_data (response_of [PDict [(''played_at'', PStr ''2023-11-14T09:00:00Z'')]])
   = Inr (append_row no_columns (PStr ''Unknown'') (PStr ''Unknown'')
            (PStr ''2023-11-14T09:00:00Z'') (PStr ''2023-11-14'')
            (PStr []) (PStr ''Unknown'') (PInt 0) (PInt 0))"
  by (simp add: process_tracks_data_def response_of_def process_item_def DataFrame_def
      same_length_def no_columns_def append_row_def)

text \<open>
  How the two normalizers treat one item. \<^verbatim>\<open>new.get_recently_played_tracks\<close> never
  raises and handles each item on its own: an item that fails to normalize, such as one
  without a \<^verbatim>\<open>track\<close> key, is skipped and the items around it keep their records and
  their 1-based ranks; an item whose track is a dict gets "Unknown" for a missing track
  or album name, 0 for a missing duration or popularity, false for a missing explicit
  flag, the empty string for missing ids and urls, and the first artist's name and id
  when the artists list starts with an artist carrying them ("Unknown" and the empty
  string when there are no artists). \<^verbatim>\<open>spotify_etl2.process_tracks_data\<close> fills in the
  same defaults and uses the first artist's name, and skips items that are not dicts;
  when every item is handled in one piece (\<open>aligned_item\<close>) it returns the frame built
  item by item.
\<close>

lemma normalizers_item_by_item:
  "(sp (clamp_limit limit) = Inr (PDict r) \<and>
    map_of r ''items'' = Some (PList (xs @ item # ys)) \<longrightarrow>
      get_recently_played_tracks_new sp limit =
        Some (track_loop 0 xs
              @ (case make_track_info (length xs) item of Inl e \<Rightarrow> [] | Inr info \<Rightarrow> [info])
              @ track_loop (Suc (length xs)) ys)) \<and>
   (map_of kvs ''track'' = None \<longrightarrow> make_track_info idx (PDict kvs) = Inl KeyError) \<and>
   (map_of kvs ''track'' = Some (PDict t) \<and>
    key_or t ''album'' (PDict []) = PDict al \<and>
    key_or t ''external_urls'' (PDict []) = PDict urls \<and>
    ((\<not> truthy (key_or t ''artists'' PNone) \<and> an = PStr ''Unknown'' \<and> ai = PStr []) \<or>
     (\<exists>a rest. map_of t ''artists'' = Some (PList (PDict a # rest)) \<and>
               map_of a ''name'' = Some an \<and> map_of a ''id'' = Some ai)) \<longrightarrow>
      make_track_info idx (PDict kvs) =
        Inr \<lparr>rank = idx + 1,
             track_name = key_or t ''name'' (PStr ''Unknown''),
             artist_name = an,
             album_name = key_or al ''name'' (PStr ''Unknown''),
             spotify_url = key_or urls ''spotify'' (PStr []),
             preview_url = key_or t ''preview_url'' (PStr []),
             duration_ms = key_or t ''duration_ms'' (PInt 0),
             popularity = key_or t ''popularity'' (PInt 0),
             explicit = key_or t ''explicit'' (PBool False),
             played_at = key_or kvs ''played_at'' (PStr []),
             track_id = key_or t ''id'' (PStr []),
             artist_id = ai,
             album_id = key_or al ''id'' (PStr [])\<rparr>) \<and>
   (map_of kvs ''track'' = None \<and> key_or kvs ''played_at'' (PStr []) = PStr p \<longrightarrow>
      process_item (PDict kvs) c =
        append_row c (PStr ''Unknown'') (PStr ''Unknown'') (PStr p) (PStr (take 10 p))
          (PStr []) (PStr ''Unknown'') (PInt 0) (PInt 0)) \<and>
   (key_or kvs ''track'' (PDict []) = PDict t \<and>
    key_or t ''album'' (PDict []) = PDict al \<and>
    key_or kvs ''played_at'' (PStr []) = PStr p \<and>
    ((\<not> truthy (key_or t ''artists'' (PList [])) \<and> an = PStr ''Unknown'') \<or>
     (\<exists>a rest. key_or t ''artists'' (PList []) = PList (PDict a # rest) \<and>
               an = key_or a ''name'' (PStr ''Unknown''))) \<longrightarrow>
      process_item (PDict kvs) c =
        append_row c (key_or t ''name'' (PStr ''Unknown'')) an (PStr p) (PStr (take 10 p))
          (key_or t ''id'' (PStr [])) (key_or al ''name'' (PStr ''Unknown''))
          (key_or t ''duration_ms'' (PInt 0)) (key_or t ''popularity'' (PInt 0))) \<and>
   (\<not> is_dict item \<longrightarrow> process_item item c = c) \<and>
   (map_of r ''items'' = Some (PList its) \<and> list_all aligned_item its \<longrightarrow>
      process_tracks_data (PDict r) = Inr (process_items its no_columns))"
proof (intro conjI impI)
  assume "sp (clamp_limit limit) = Inr (PDict r) \<and>
    map_of r ''items'' = Some (PList (xs @ item # ys))"
  then have "get_recently_played_tracks_new sp limit = Some (track_loop 0 (xs @ item # ys))"
    by (intro new_fetch_items) auto
  then show "get_recently_played_tracks_new sp limit =
        Some (track_loop 0 xs
              @ (case make_track_info (length xs) item of Inl e \<Rightarrow> [] | Inr info \<Rightarrow> [info])
              @ track_loop (Suc (length xs)) ys)"
    using track_loop_item [of 0 xs item ys] by simp
next
  assume "map_of kvs ''track'' = None"
  then show "make_track_info idx (PDict kvs) = Inl KeyError"
    by (rule make_track_info_no_track)
next
  assume "map_of kvs ''track'' = Some (PDict t) \<and>
    key_or t ''album'' (PDict []) = PDict al \<and>
    key_or t ''external_urls'' (PDict []) = PDict urls \<and>
    ((\<not> truthy (key_or t ''artists'' PNone) \<and> an = PStr ''Unknown'' \<and> ai = PStr []) \<or>
     (\<exists>a rest. map_of t ''artists'' = Some (PList (PDict a # rest)) \<and>
               map_of a ''name'' = Some an \<and> map_of a ''id'' = Some ai))"
  then show "make_track_info idx (PDict kvs) =
        Inr \<lparr>rank = idx + 1,
             track_name = key_or t ''name'' (PStr ''Unknown''),
             artist_name = an,
             album_name = key_or al ''name'' (PStr ''Unknown''),
             spotify_url = key_or urls ''spotify'' (PStr []),
             preview_url = key_or t ''preview_url'' (PStr []),
             duration_ms = key_or t ''duration_ms'' (PInt 0),
             popularity = key_or t ''popularity'' (PInt 0),
             explicit = key_or t ''explicit'' (PBool False),
             played_at = key_or kvs ''played_at'' (PStr []),
             track_id = key_or t ''id'' (PStr []),
             artist_id = ai,
             album_id = key_or al ''id'' (PStr [])\<rparr>"
    by (intro make_track_info_defaults) blast+
next
  assume "map_of kvs ''track'' = None \<and> key_or kvs ''played_at'' (PStr []) = PStr p"
  then show "process_item (PDict kvs) c =
        append_row c (PStr ''Unknown'') (PStr ''Unknown'') (PStr p) (PStr (take 10 p))
          (PStr []) (PStr ''Unknown'') (PInt 0) (PInt 0)"
    by (intro process_item_no_track) blast+
next
  assume "key_or kvs ''track'' (PDict []) = PDict t \<and>
    key_or t ''album'' (PDict []) = PDict al \<and>
    key_or kvs ''played_at'' (PStr []) = PStr p \<and>
    ((\<not> truthy (key_or t ''artists'' (PList [])) \<and> an = PStr ''Unknown'') \<or>
     (\<exists>a rest. key_or t ''artists'' (PList []) = PList (PDict a # rest) \<and>
               an = key_or a ''name'' (PStr ''Unknown'')))"
  then show "process_item (PDict kvs) c =
        append_row c (key_or t ''name'' (PStr ''Unknown'')) an (PStr p) (PStr (take 10 p))
          (key_or t ''id'' (PStr [])) (key_or al ''name'' (PStr ''Unknown''))
          (key_or t ''duration_ms'' (PInt 0)) (key_or t ''popularity'' (PInt 0))"
    by (intro process_item_defaults) blast+
next
  assume "\<not> is_dict item"
  then show "process_item item c = c" by (rule process_item_not_is_dict)
next
  assume "map_of r ''items'' = Some (PList its) \<and> list_all aligned_item its"
  then show "process_tracks_data (PDict r) = Inr (process_items its no_columns)"
    by (intro process_tracks_data_aligned) blast+
qed
lemma normalizers_item_by_item_example:
  "get_recently_played_tracks_new
     (\<lambda>limit. Inr (response_of
        [history_item ''One'' ''A'' [PStr ''2023-11-14T10:00:00Z''],
         PDict [(''played_at'', PStr ''2023-11-14T09:00:00Z'')],
         history_item ''Two'' ''B'' [PStr ''2023-11-14T11:30:00Z'']])) 10
   = Some [history_track_info 0 ''One'' ''A'' (PStr ''2023-11-14T10:00:00Z''),
           history_track_info 2 ''Two'' ''B'' (PStr ''2023-11-14T11:30:00Z'')] \<and>
   process_tracks_data (response_of
      [PStr ''junk'',
       PDict [(''played_at'', PStr ''2023-11-14T09:00:00Z'')],
       history_item ''Two'' ''B'' [PStr ''2023-11-14T11:30:00Z'']])
   = Inr (history_row
            (append_row no_columns (PStr ''Unknown'') (PStr ''Unknown'')
               (PStr ''2023-11-14T09:00:00Z'') (PStr ''2023-11-14'')
               (PStr []) (PStr ''Unknown'') (PInt 0) (PInt 0))
            ''Two'' ''B'' (PStr ''2023-11-14T11:30:00Z'') (PStr ''2023-11-14''))"
proof -
  let ?h1 = "history_item ''One'' ''A'' [PStr ''2023-11-14T10:00:00Z'']"
  let ?bad = "[(''played_at'', PStr ''2023-11-14T09:00:00Z'')]"
  let ?h2 = "history_item ''Two'' ''B'' [PStr ''2023-11-14T11:30:00Z'']"
  let ?sp = "\<lambda>limit::int. (Inr (response_of [?h1, PDict ?bad, ?h2]) :: py_error + pyval)"
  let ?its = "[PStr ''junk'', PDict ?bad, ?h2]"
  note inst1 = normalizers_item_by_item
    [where sp = ?sp and limit = 10 and r = "[(''items'', PList [?h1, PDict ?bad, ?h2])]"
       and xs = "[?h1]" and item = "PDict ?bad" and ys = "[?h2]" and kvs = ?bad and idx = 1]
  have skipped: "make_track_info 1 (PDict ?bad) = Inl KeyError"
    using inst1 [THEN conjunct2, THEN conjunct1] by simp
  have "get_recently_played_tracks_new ?sp 10 =
        Some (track_loop 0 [?h1]
              @ (case make_track_info (length [?h1]) (PDict ?bad) of
                   Inl e \<Rightarrow> [] | Inr info \<Rightarrow> [info])
              @ track_loop (Suc (length [?h1])) [?h2])"
    using inst1 [THEN conjunct1] by (simp add: response_of_def)
  then have first: "get_recently_played_tracks_new ?sp 10
      = Some [history_track_info 0 ''One'' ''A'' (PStr ''2023-11-14T10:00:00Z''),
              history_track_info 2 ''Two'' ''B'' (PStr ''2023-11-14T11:30:00Z'')]"
    using skipped by (simp add: make_history_track_info history_track_info_def)
  note inst2 = normalizers_item_by_item
    [where r = "[(''items'', PList ?its)]" and its = ?its and kvs = ?bad
       and p = "''2023-11-14T09:00:00Z''" and item = "PStr ''junk''"]
  have aligned: "list_all aligned_item ?its"
    by (simp add: aligned_item_def key_or_def history_item_def track_payload_def)
  have junk: "process_item (PStr ''junk'') c = c" for c
    using inst2 [THEN conjunct2, THEN conjunct2, THEN conjunct2, THEN conjunct2,
      THEN conjunct2, THEN conjunct1, of c]
    by simp
  have bare: "process_item (PDict ?bad) c =
        append_row c (PStr ''Unknown'') (PStr ''Unknown'') (PStr ''2023-11-14T09:00:00Z'')
          (PStr ''2023-11-14'') (PStr []) (PStr ''Unknown'') (PInt 0) (PInt 0)" for c
    using inst2 [THEN conjunct2, THEN conjunct2, THEN conjunct2, THEN conjunct1, of c]
    by (simp add: key_or_def)
  have "process_tracks_data (PDict [(''items'', PList ?its)])
      = Inr (process_items ?its no_columns)"
    using inst2 [THEN conjunct2, THEN conjunct2, THEN conjunct2, THEN conjunct2,
      THEN conjunct2, THEN conjunct2] aligned
    by simp
  then have second: "process_tracks_data (response_of ?its)
      = Inr (history_row
            (append_row no_columns (PStr ''Unknown'') (PStr ''Unknown'')
               (PStr ''2023-11-14T09:00:00Z'') (PStr ''2023-11-14'')
               (PStr []) (PStr ''Unknown'') (PInt 0) (PInt 0))
            ''Two'' ''B'' (PStr ''2023-11-14T11:30:00Z'') (PStr ''2023-11-14''))"
    by (simp add: response_of_def junk bare process_history_item)
  from first second show ?thesis by (rule conjI)
qed

subsection \<open>An item that fails halfway\<close>

lemma new_skips_null_album:
  "make_track_info idx
     (PDict [(''track'', PDict [(''name'', PStr ''One''), (''album'', PNone)])])
   = Inl AttributeError"
  by (simp add: make_track_info_def first_artist_def nested_get_def)

lemma process_item_null_album:
  "process_item (PDict [(''track'', PDict [(''name'', PStr ''One''), (''album'', PNone)])]) c
   = c\<lparr>song_names := song_names c @ [PStr ''One''],
        artist_names := artist_names c @ [PStr ''Unknown''],
        played_at_list := played_at_list c @ [PStr []],
        timestamps := timestamps c @ [PStr []],
        track_ids := track_ids c @ [PStr []]\<rparr>"
  by (simp add: process_item_def)

text \<open>
  C5. The normalizer \<^verbatim>\<open>spotify_etl2.process_tracks_data\<close> does raise. Its loop body
  appends to the eight lists one statement at a time, so an item that fails after its
  first append (here at \<^verbatim>\<open>track.get("album", {}).get("name", "Unknown")\<close>, the album
  being \<^verbatim>\<open>null\<close>) is not skipped as the \<^verbatim>\<open>except ... continue\<close> intends: it leaves the
  lists with different lengths, and \<^verbatim>\<open>pd.DataFrame\<close> raises \<^verbatim>\<open>ValueError\<close> for the
  whole batch, also when the other items are sound.
  \<^verbatim>\<open>new.get_recently_played_tracks\<close>, which builds a record before it appends it,
  skips the same item and keeps the rest.
\<close>

theorem C5_item_failing_halfway_makes_normalizer_raise:
  "process_tracks_data (response_of
      [PDict [(''track'', PDict [(''name'', PStr ''One''), (''album'', PNone)])]])
     = Inl (ValueError ''All arrays must be of the same length'') \<and>
   process_tracks_data (response_of
      [history_item ''Two'' ''B'' [PStr ''2023-11-14T11:30:00Z''],
       PDict [(''track'', PDict [(''name'', PStr ''One''), (''album'', PNone)])]])
     = Inl (ValueError ''All arrays must be of the same length'') \<and>
   get_recently_played_tracks_new
     (\<lambda>limit. Inr (response_of
        [history_item ''Two'' ''B'' [PStr ''2023-11-14T11:30:00Z''],
         PDict [(''track'', PDict [(''name'', PStr ''One''), (''album'', PNone)])]])) 10
     = Some [history_track_info 0 ''Two'' ''B'' (PStr ''2023-11-14T11:30:00Z'')]"
proof (intro conjI)
  show "process_tracks_data (response_of
      [PDict [(''track'', PDict [(''name'', PStr ''One''), (''album'', PNone)])]])
     = Inl (ValueError ''All arrays must be of the same length'')"
    by (simp add: process_tracks_data_def response_of_def process_item_null_album
        DataFrame_def same_length_def no_columns_def)
  show "process_tracks_data (response_of
      [history_item ''Two'' ''B'' [PStr ''2023-11-14T11:30:00Z''],
       PDict [(''track'', PDict [(''name'', PStr ''One''), (''album'', PNone)])]])
     = Inl (ValueError ''All arrays must be of the same length'')"
    by (simp add: process_tracks_data_def response_of_def process_history_item
        process_item_null_album history_row_def append_row_def DataFrame_def
        same_length_def no_columns_def)
  show "get_recently_played_tracks_new
     (\<lambda>limit. Inr (response_of
        [history_item ''Two'' ''B'' [PStr ''2023-11-14T11:30:00Z''],
         PDict [(''track'', PDict [(''name'', PStr ''One''), (''album'', PNone)])]])) 10
     = Some [history_track_info 0 ''Two'' ''B'' (PStr ''2023-11-14T11:30:00Z'')]"
    by (simp add: get_recently_played_tracks_new_def response_of_def make_history_track_info
        new_skips_null_album)
qed

end
